theory Spec2Isabelle
  imports Complex_Main "HOL-Library.Char_ord" "HOL-Library.List_Lexorder"
begin

section \<open>Domain state model\<close>

text \<open>
  The entity types of the client-side repository. A field the source declares optional
  (\<^verbatim>\<open>barcode?: string\<close>) is an \<open>option\<close>, with \<open>None\<close> for \<^verbatim>\<open>undefined\<close>. The two
  \<^verbatim>\<open>id\<close> fields are declared \<^verbatim>\<open>string\<close>, but the object spread of the upsert operations
  copies an \<^verbatim>\<open>id\<close> key that holds \<^verbatim>\<open>undefined\<close> (\<^verbatim>\<open>recordOutbound\<close> passes
  \<^verbatim>\<open>id: options.client.id\<close>), so they are options as well. Quantities are integers;
  weights and values are exact reals.
\<close>

record InventoryItem =
  item_id :: "string option"
  item_name :: string
  item_category :: string
  item_barcode :: "string option"
  item_quantity :: int
  item_weightPerUnitLbs :: real
  item_valuePerUnitUsd :: real
  item_reorderThreshold :: "int option"
  item_allergens :: "string list option"
  item_createdAt :: string
  item_updatedAt :: string

record ClientRecord =
  client_id :: "string option"
  client_name :: string
  client_identifier :: string
  client_contact :: "string option"
  client_allergies :: "string list option"
  client_notes :: "string option"
  client_createdAt :: string
  client_updatedAt :: string

record TransactionItem =
  line_itemId :: "string option"
  line_name :: string
  line_quantity :: int
  line_weightPerUnitLbs :: real
  line_valuePerUnitUsd :: real

datatype TransactionType = IN | OUT

record GeoLocation =
  latitude :: real
  longitude :: real
  accuracy :: "real option"

record Transaction =
  tx_id :: string
  tx_type :: TransactionType
  tx_timestamp :: string
  tx_items :: "TransactionItem list"
  tx_source :: "string option"
  tx_donor :: "string option"
  tx_clientId :: "string option"
  tx_clientName :: "string option"
  tx_location :: "GeoLocation option"

record Settings =
  visitWarningDays :: int

record BarcodeCacheEntry =
  cache_name :: "string option"
  cache_category :: "string option"
  cache_weightPerUnitLbs :: "real option"
  cache_allergens :: "string list option"
  cachedAt :: string

record RepositoryState =
  inventory :: "InventoryItem list"
  clients :: "ClientRecord list"
  transactions :: "Transaction list"
  settings :: Settings
  barcodeCache :: "string \<rightharpoonup> BarcodeCacheEntry"
  sources :: "string list"
  donors :: "string list"

definition defaultState :: RepositoryState where
  "defaultState =
     \<lparr>inventory = [], clients = [], transactions = [],
      settings = \<lparr>visitWarningDays = 7\<rparr>,
      barcodeCache = Map.empty,
      sources = [''Donation'', ''Purchase'', ''Transfer'', ''Other''],
      donors = [''Morgan State University'', ''Maryland Food Bank'', ''Local Grocery'']\<rparr>"

section \<open>Partial objects and JavaScript primitives\<close>

text \<open>
  A key of a \<^verbatim>\<open>Partial<T>\<close> argument is absent (\<open>None\<close>) or present with a value
  (\<open>Some v\<close>). For an \<^verbatim>\<open>id\<close> and for a field declared optional the value may itself be
  \<^verbatim>\<open>undefined\<close>, so those keys have type \<open>'a option option\<close>. \<open>read_key\<close> is the
  property read \<^verbatim>\<open>partial.k\<close>, which does not tell the two apart; \<open>spread\<close> is the
  effect of \<^verbatim>\<open>{...existing, ...partial}\<close> on one field, which does.
\<close>

definition read_key :: "'a option option \<Rightarrow> 'a option" where
  "read_key k = (case k of None \<Rightarrow> None | Some v \<Rightarrow> v)"

definition spread :: "'a \<Rightarrow> 'a option \<Rightarrow> 'a" where
  "spread old k = (case k of None \<Rightarrow> old | Some v \<Rightarrow> v)"

text \<open>\<^verbatim>\<open>a ?? b\<close> on a possibly undefined value.\<close>

definition nullish :: "'a option \<Rightarrow> 'a \<Rightarrow> 'a" where
  "nullish v d = (case v of None \<Rightarrow> d | Some x \<Rightarrow> x)"

text \<open>Truthiness of a possibly undefined string: defined and non-empty.\<close>

definition truthy :: "string option \<Rightarrow> bool" where
  "truthy v = (case v of None \<Rightarrow> False | Some s \<Rightarrow> s \<noteq> [])"

text \<open>
  \<^verbatim>\<open>String.prototype.trim\<close>: white space is removed at both ends. The white space
  characters that a \<open>char\<close> can hold are tab, line feed, vertical tab, form feed,
  carriage return, space and the no-break space.
\<close>

definition js_whitespace :: "char \<Rightarrow> bool" where
  "js_whitespace c = ((of_char c :: nat) \<in> {9, 10, 11, 12, 13, 32, 160})"

definition trim :: "string \<Rightarrow> string" where
  "trim s = rev (dropWhile js_whitespace (rev (dropWhile js_whitespace s)))"

record PartialInventoryItem =
  p_id :: "string option option"
  p_name :: string
  p_category :: "string option"
  p_barcode :: "string option option"
  p_quantity :: "int option"
  p_weightPerUnitLbs :: "real option"
  p_valuePerUnitUsd :: "real option"
  p_reorderThreshold :: "int option option"
  p_allergens :: "string list option option"
  p_createdAt :: "string option"
  p_updatedAt :: "string option"

record PartialClientRecord =
  cp_id :: "string option option"
  cp_name :: string
  cp_identifier :: string
  cp_contact :: "string option option"
  cp_allergies :: "string list option option"
  cp_notes :: "string option option"
  cp_createdAt :: "string option"
  cp_updatedAt :: "string option"

record PartialSettings =
  ps_visitWarningDays :: "int option"

section \<open>Repository engine\<close>

text \<open>
  The operations are closures of one render of the provider. They read the snapshot
  \<^verbatim>\<open>state\<close> of that render, and they change the state through \<^verbatim>\<open>setState(prev => ...)\<close>,
  whose updater React applies to the latest state \<^verbatim>\<open>prev\<close>: at once when no update of the
  provider is pending, and in the order of the calls, during the next render, otherwise.
  For a call on a settled provider (no update pending, and the closure that of the current
  render) \<^verbatim>\<open>prev\<close> is the snapshot. For a call issued behind a pending update, or from the
  closure of an earlier render, it is not. \<open>addOrUpdateItem\<close> and \<open>upsertClient\<close> read the
  snapshot before they call \<^verbatim>\<open>setState\<close>, so their models return the updater as a function of
  \<^verbatim>\<open>prev\<close> (\<open>addOrUpdateItem_queued\<close>, \<open>upsertClient_queued\<close>); \<open>addOrUpdateItem\<close> and
  \<open>upsertClient\<close> themselves are the calls on a settled provider. The other operations read
  \<^verbatim>\<open>prev\<close> only. The clock (\<^verbatim>\<open>new Date().toISOString()\<close>) and \<^verbatim>\<open>crypto.randomUUID()\<close> are
  inputs: \<open>now\<close> and \<open>uid\<close>. The clock is one value per call, also in \<open>adjustItemQuantity\<close>, which
  reads it for every item it changes.
\<close>

text \<open>
  The value of \<^verbatim>\<open>existing\<close> in \<open>addOrUpdateItem\<close>: the first item with the id of the
  partial, if that id is truthy and such an item exists; otherwise the first item with the
  barcode of the partial, if that barcode is truthy.
\<close>

definition existingItem :: "RepositoryState \<Rightarrow> PartialInventoryItem \<Rightarrow> InventoryItem option" where
  "existingItem state partial =
     (case (if truthy (read_key (p_id partial))
            then find (\<lambda>i. item_id i = read_key (p_id partial)) (inventory state)
            else None) of
        Some e \<Rightarrow> Some e
      | None \<Rightarrow>
          (if truthy (read_key (p_barcode partial))
           then find (\<lambda>i. truthy (item_barcode i) \<and> item_barcode i = read_key (p_barcode partial))
                  (inventory state)
           else None))"

definition addOrUpdateItem_queued ::
  "RepositoryState \<Rightarrow> PartialInventoryItem \<Rightarrow> string \<Rightarrow> string
     \<Rightarrow> InventoryItem \<times> (RepositoryState \<Rightarrow> RepositoryState)"
where
  "addOrUpdateItem_queued state partial now uid =
    (case existingItem state partial of
       Some e \<Rightarrow>
         (let updated =
            \<lparr>item_id = spread (item_id e) (p_id partial),
             item_name = p_name partial,
             item_category = spread (item_category e) (p_category partial),
             item_barcode = spread (item_barcode e) (p_barcode partial),
             item_quantity = spread (item_quantity e) (p_quantity partial),
             item_weightPerUnitLbs = spread (item_weightPerUnitLbs e) (p_weightPerUnitLbs partial),
             item_valuePerUnitUsd = spread (item_valuePerUnitUsd e) (p_valuePerUnitUsd partial),
             item_reorderThreshold = spread (item_reorderThreshold e) (p_reorderThreshold partial),
             item_allergens = spread (item_allergens e) (p_allergens partial),
             item_createdAt = spread (item_createdAt e) (p_createdAt partial),
             item_updatedAt = now\<rparr>
          in (updated,
              \<lambda>prev. prev\<lparr>inventory := map (\<lambda>i. if item_id i = item_id e then updated else i)
                                         (inventory prev)\<rparr>))
     | None \<Rightarrow>
         (let item =
            \<lparr>item_id = Some (nullish (read_key (p_id partial)) uid),
             item_name = p_name partial,
             item_category = nullish (p_category partial) ''Uncategorized'',
             item_barcode =
               (case read_key (p_barcode partial) of
                  None \<Rightarrow> None
                | Some b \<Rightarrow> if trim b = [] then None else Some (trim b)),
             item_quantity = nullish (p_quantity partial) 0,
             item_weightPerUnitLbs = nullish (p_weightPerUnitLbs partial) 0,
             item_valuePerUnitUsd = nullish (p_valuePerUnitUsd partial) 0,
             item_reorderThreshold = read_key (p_reorderThreshold partial),
             item_allergens = read_key (p_allergens partial),
             item_createdAt = now,
             item_updatedAt = now\<rparr>
          in (item, \<lambda>prev. prev\<lparr>inventory := inventory prev @ [item]\<rparr>)))"

definition addOrUpdateItem ::
  "RepositoryState \<Rightarrow> PartialInventoryItem \<Rightarrow> string \<Rightarrow> string \<Rightarrow> InventoryItem \<times> RepositoryState"
where
  "addOrUpdateItem state partial now uid =
     (case addOrUpdateItem_queued state partial now uid of (item, updater) \<Rightarrow> (item, updater state))"

definition adjustItemQuantity :: "RepositoryState \<Rightarrow> string \<Rightarrow> int \<Rightarrow> string \<Rightarrow> RepositoryState" where
  "adjustItemQuantity prev itemId delta now =
     prev\<lparr>inventory :=
       map (\<lambda>item. if item_id item \<noteq> Some itemId then item
                   else item\<lparr>item_quantity := max 0 (item_quantity item + delta),
                             item_updatedAt := now\<rparr>)
           (inventory prev)\<rparr>"

text \<open>
  The value of \<^verbatim>\<open>existing\<close> in \<open>upsertClient\<close>: by id if the id of the partial is truthy and
  matches, otherwise by identifier.
\<close>

definition existingClient :: "RepositoryState \<Rightarrow> PartialClientRecord \<Rightarrow> ClientRecord option" where
  "existingClient state partial =
     (case (if truthy (read_key (cp_id partial))
            then find (\<lambda>c. client_id c = read_key (cp_id partial)) (clients state)
            else None) of
        Some e \<Rightarrow> Some e
      | None \<Rightarrow> find (\<lambda>c. client_identifier c = cp_identifier partial) (clients state))"

text \<open>
  \<open>upsertClient\<close> resolves the client on the snapshot and hands one updater to \<^verbatim>\<open>setState\<close>.
\<close>

definition upsertClient_queued ::
  "RepositoryState \<Rightarrow> PartialClientRecord \<Rightarrow> string \<Rightarrow> string
     \<Rightarrow> ClientRecord \<times> (RepositoryState \<Rightarrow> RepositoryState)"
where
  "upsertClient_queued state partial now uid =
    (case existingClient state partial of
       Some e \<Rightarrow>
         (let updated =
            \<lparr>client_id = spread (client_id e) (cp_id partial),
             client_name = cp_name partial,
             client_identifier = cp_identifier partial,
             client_contact = spread (client_contact e) (cp_contact partial),
             client_allergies = spread (client_allergies e) (cp_allergies partial),
             client_notes = spread (client_notes e) (cp_notes partial),
             client_createdAt = spread (client_createdAt e) (cp_createdAt partial),
             client_updatedAt = now\<rparr>
          in (updated,
              \<lambda>prev. prev\<lparr>clients := map (\<lambda>c. if client_id c = client_id e then updated else c)
                                         (clients prev)\<rparr>))
     | None \<Rightarrow>
         (let client =
            \<lparr>client_id = Some (nullish (read_key (cp_id partial)) uid),
             client_name = cp_name partial,
             client_identifier = cp_identifier partial,
             client_contact = read_key (cp_contact partial),
             client_allergies = read_key (cp_allergies partial),
             client_notes = read_key (cp_notes partial),
             client_createdAt = now,
             client_updatedAt = now\<rparr>
          in (client, \<lambda>prev. prev\<lparr>clients := clients prev @ [client]\<rparr>)))"

definition upsertClient ::
  "RepositoryState \<Rightarrow> PartialClientRecord \<Rightarrow> string \<Rightarrow> string \<Rightarrow> ClientRecord \<times> RepositoryState"
where
  "upsertClient state partial now uid =
     (case upsertClient_queued state partial now uid of (client, updater) \<Rightarrow> (client, updater state))"

record InboundOptions =
  in_itemId :: string
  in_quantity :: int
  in_source :: "string option"
  in_donor :: "string option"
  in_timestamp :: "string option"
  in_location :: "GeoLocation option"

definition recordInbound :: "RepositoryState \<Rightarrow> InboundOptions \<Rightarrow> string \<Rightarrow> string \<Rightarrow> RepositoryState" where
  "recordInbound prev options now uid =
    (let itemId = in_itemId options;
         quantity = in_quantity options;
         timestamp = nullish (in_timestamp options) now
     in if quantity = 0 \<or> quantity \<le> 0 then prev
        else case find (\<lambda>i. item_id i = Some itemId) (inventory prev) of
          None \<Rightarrow> prev
        | Some item \<Rightarrow>
            (let inventory' =
               map (\<lambda>i. if item_id i = Some itemId
                         then i\<lparr>item_quantity := item_quantity i + quantity, item_updatedAt := timestamp\<rparr>
                         else i)
                   (inventory prev);
                 tx = \<lparr>tx_id = uid, tx_type = IN, tx_timestamp = timestamp,
                       tx_items =
                         [\<lparr>line_itemId = item_id item, line_name = item_name item,
                           line_quantity = quantity,
                           line_weightPerUnitLbs = item_weightPerUnitLbs item,
                           line_valuePerUnitUsd = item_valuePerUnitUsd item\<rparr>],
                       tx_source = in_source options, tx_donor = in_donor options,
                       tx_clientId = None, tx_clientName = None,
                       tx_location = in_location options\<rparr>
             in prev\<lparr>inventory := inventory', transactions := tx # transactions prev\<rparr>))"

record CartLine =
  cart_itemId :: string
  cart_quantity :: int

record OutboundClient =
  oc_id :: "string option"
  oc_name :: string
  oc_identifier :: string
  oc_contact :: "string option"

record OutboundOptions =
  out_client :: OutboundClient
  out_items :: "CartLine list"
  out_timestamp :: "string option"
  out_location :: "GeoLocation option"

text \<open>
  The updater that \<open>recordOutbound\<close> passes to \<^verbatim>\<open>setState\<close>, without its call of
  \<open>upsertClient\<close>: \<open>client\<close> is what that call returned.
\<close>

definition recordOutbound_updater ::
  "OutboundOptions \<Rightarrow> string \<Rightarrow> ClientRecord \<Rightarrow> string \<Rightarrow> RepositoryState \<Rightarrow> RepositoryState"
where
  "recordOutbound_updater options timestamp client uid prev =
    (let inventory' =
       map (\<lambda>item.
              case find (\<lambda>i. Some (cart_itemId i) = item_id item) (out_items options) of
                None \<Rightarrow> item
              | Some cartItem \<Rightarrow>
                  item\<lparr>item_quantity := max 0 (item_quantity item - cart_quantity cartItem),
                       item_updatedAt := timestamp\<rparr>)
           (inventory prev);
         txItems =
           List.map_filter
             (\<lambda>i. case find (\<lambda>item. item_id item = Some (cart_itemId i)) (inventory prev) of
                     None \<Rightarrow> None
                   | Some base \<Rightarrow>
                       Some \<lparr>line_itemId = item_id base, line_name = item_name base,
                             line_quantity = cart_quantity i,
                             line_weightPerUnitLbs = item_weightPerUnitLbs base,
                             line_valuePerUnitUsd = item_valuePerUnitUsd base\<rparr>)
             (out_items options)
     in if txItems = [] then prev
        else
          (let tx = \<lparr>tx_id = uid, tx_type = OUT, tx_timestamp = timestamp,
                     tx_items = txItems, tx_source = None, tx_donor = None,
                     tx_clientId = client_id client, tx_clientName = Some (client_name client),
                     tx_location = out_location options\<rparr>
           in prev\<lparr>inventory := inventory',
                   clients :=
                     (if list_ex (\<lambda>c. client_id c = client_id client) (clients prev)
                      then map (\<lambda>c. if client_id c = client_id client then client else c) (clients prev)
                      else client # clients prev),
                   transactions := tx # transactions prev\<rparr>))"

text \<open>
  The object literal that \<open>recordOutbound\<close> hands to \<open>upsertClient\<close>: the keys
  \<^verbatim>\<open>id\<close> and \<^verbatim>\<open>contact\<close> are always present, also when they hold \<^verbatim>\<open>undefined\<close>.
\<close>

definition clientPartial :: "OutboundClient \<Rightarrow> PartialClientRecord" where
  "clientPartial c =
     \<lparr>cp_id = Some (oc_id c), cp_name = oc_name c, cp_identifier = oc_identifier c,
      cp_contact = Some (oc_contact c), cp_allergies = None, cp_notes = None,
      cp_createdAt = None, cp_updatedAt = None\<rparr>"

text \<open>
  \<open>recordOutbound\<close> returns at once on an empty cart. Otherwise it hands its updater to
  \<^verbatim>\<open>setState\<close>. That updater first calls \<open>upsertClient\<close>, which resolves the client on the
  snapshot and calls \<^verbatim>\<open>setState\<close> itself. What becomes of that inner update depends on when
  React runs the outer updater.

  On a settled provider React runs the updater at once, inside the outer \<^verbatim>\<open>setState\<close>, on
  the rendered state. The inner update is queued while the updater runs, hence before the
  update of the updater itself, and the state that the updater returned is replayed over
  it: the state after the call is what the updater returned. This is \<open>recordOutbound\<close>.

  Behind a pending update React runs the updater during the next render, on the state
  \<^verbatim>\<open>prev\<close> that the updates before it have led to. The inner \<^verbatim>\<open>setState\<close> is then issued
  during the render, and React applies it after the queue. This is \<open>recordOutbound_pending\<close>,
  for a call whose update is the last of the queue.

  \<open>now\<close> is the clock at the call, which is the timestamp if the options give none;
  \<open>now_client\<close> and \<open>uid_client\<close> are the clock and the generated id inside \<open>upsertClient\<close>;
  \<open>uid_tx\<close> is the id of the transaction. The value returned to the caller depends on whether
  React has already run the updater when \<open>recordOutbound\<close> returns, and is left out.
\<close>

definition recordOutbound ::
  "RepositoryState \<Rightarrow> OutboundOptions \<Rightarrow> string \<Rightarrow> string \<Rightarrow> string \<Rightarrow> string
     \<Rightarrow> RepositoryState"
where
  "recordOutbound state options now now_client uid_client uid_tx =
    (let timestamp = nullish (out_timestamp options) now
     in if out_items options = [] then state
        else
          recordOutbound_updater options timestamp
            (fst (upsertClient_queued state (clientPartial (out_client options)) now_client uid_client))
            uid_tx state)"

definition recordOutbound_pending ::
  "RepositoryState \<Rightarrow> OutboundOptions \<Rightarrow> string \<Rightarrow> string \<Rightarrow> string \<Rightarrow> string
     \<Rightarrow> RepositoryState \<Rightarrow> RepositoryState"
where
  "recordOutbound_pending state options now now_client uid_client uid_tx prev =
    (let timestamp = nullish (out_timestamp options) now
     in if out_items options = [] then prev
        else
          (case upsertClient_queued state (clientPartial (out_client options)) now_client uid_client of
             (client, client_updater) \<Rightarrow>
               client_updater (recordOutbound_updater options timestamp client uid_tx prev)))"

definition updateSettings :: "RepositoryState \<Rightarrow> PartialSettings \<Rightarrow> RepositoryState" where
  "updateSettings prev partial =
     prev\<lparr>settings :=
       \<lparr>visitWarningDays = spread (visitWarningDays (settings prev)) (ps_visitWarningDays partial)\<rparr>\<rparr>"

record BarcodeCacheInput =
  ci_name :: "string option"
  ci_category :: "string option"
  ci_weightPerUnitLbs :: "real option"
  ci_allergens :: "string list option"

definition upsertBarcodeCache ::
  "RepositoryState \<Rightarrow> string \<Rightarrow> BarcodeCacheInput \<Rightarrow> string \<Rightarrow> RepositoryState"
where
  "upsertBarcodeCache prev barcode entry now =
     prev\<lparr>barcodeCache :=
       (barcodeCache prev)(barcode \<mapsto>
          \<lparr>cache_name = ci_name entry, cache_category = ci_category entry,
           cache_weightPerUnitLbs = ci_weightPerUnitLbs entry,
           cache_allergens = ci_allergens entry, cachedAt = now\<rparr>)\<rparr>"

definition addSource :: "RepositoryState \<Rightarrow> string \<Rightarrow> RepositoryState" where
  "addSource prev source =
     (if source \<in> set (sources prev) then prev else prev\<lparr>sources := sources prev @ [source]\<rparr>)"

definition addDonor :: "RepositoryState \<Rightarrow> string \<Rightarrow> RepositoryState" where
  "addDonor prev donor =
     (if donor \<in> set (donors prev) then prev else prev\<lparr>donors := donors prev @ [donor]\<rparr>)"

text \<open>
  A call of one engine operation, with its arguments and the clock and id values it
  draws, and a sequence of calls, each made on a settled provider, hence on the state the
  previous one left.
\<close>

datatype operation =
    AddOrUpdateItem PartialInventoryItem string string
  | AdjustItemQuantity string int string
  | RecordInbound InboundOptions string string
  | RecordOutbound OutboundOptions string string string string
  | UpsertClient PartialClientRecord string string
  | UpdateSettings PartialSettings
  | UpsertBarcodeCache string BarcodeCacheInput string
  | AddSource string
  | AddDonor string

fun apply_operation :: "RepositoryState \<Rightarrow> operation \<Rightarrow> RepositoryState" where
  "apply_operation s (AddOrUpdateItem partial now uid) = snd (addOrUpdateItem s partial now uid)"
| "apply_operation s (AdjustItemQuantity itemId delta now) = adjustItemQuantity s itemId delta now"
| "apply_operation s (RecordInbound options now uid) = recordInbound s options now uid"
| "apply_operation s (RecordOutbound options now now_client uid_client uid_tx) =
     recordOutbound s options now now_client uid_client uid_tx"
| "apply_operation s (UpsertClient partial now uid) = snd (upsertClient s partial now uid)"
| "apply_operation s (UpdateSettings partial) = updateSettings s partial"
| "apply_operation s (UpsertBarcodeCache barcode entry now) = upsertBarcodeCache s barcode entry now"
| "apply_operation s (AddSource source) = addSource s source"
| "apply_operation s (AddDonor donor) = addDonor s donor"

definition run :: "RepositoryState \<Rightarrow> operation list \<Rightarrow> RepositoryState" where
  "run s ops = foldl apply_operation s ops"

section \<open>Durable store adapter\<close>

text \<open>
  What \<open>loadState\<close> and \<open>saveState\<close> see of the browser: whether \<^verbatim>\<open>window\<close> exists,
  whether \<^verbatim>\<open>localStorage.getItem\<close> and \<^verbatim>\<open>localStorage.setItem\<close> throw, and the text held
  under the storage key (\<open>None\<close> for \<^verbatim>\<open>null\<close>).
\<close>

record Browser =
  has_window :: bool
  getItem_throws :: bool
  setItem_throws :: bool
  stored :: "string option"

text \<open>
  The value that \<^verbatim>\<open>JSON.parse\<close> returns, as far as \<open>loadState\<close> looks at it: each of the
  seven top-level fields is missing or present. A parsed value that is not an object has
  none of them.
\<close>

record StoredObject =
  so_inventory :: "InventoryItem list option"
  so_clients :: "ClientRecord list option"
  so_transactions :: "Transaction list option"
  so_settings :: "Settings option"
  so_barcodeCache :: "(string \<rightharpoonup> BarcodeCacheEntry) option"
  so_sources :: "string list option"
  so_donors :: "string list option"

text \<open>
  \<^verbatim>\<open>JSON.stringify\<close> and \<^verbatim>\<open>JSON.parse\<close> belong to the JavaScript runtime and are parameters
  of the model; \<open>parse\<close> returns \<open>None\<close> where \<^verbatim>\<open>JSON.parse\<close> throws.
\<close>

record JSON =
  stringify :: "RepositoryState \<Rightarrow> string"
  parse :: "string \<Rightarrow> StoredObject option"

text \<open>The object with all seven fields of a state present.\<close>

definition storedObject :: "RepositoryState \<Rightarrow> StoredObject" where
  "storedObject s =
     \<lparr>so_inventory = Some (inventory s), so_clients = Some (clients s),
      so_transactions = Some (transactions s), so_settings = Some (settings s),
      so_barcodeCache = Some (barcodeCache s), so_sources = Some (sources s),
      so_donors = Some (donors s)\<rparr>"

definition loadState :: "JSON \<Rightarrow> Browser \<Rightarrow> RepositoryState" where
  "loadState json browser =
    (if \<not> has_window browser then defaultState
     else if getItem_throws browser then defaultState
     else case stored browser of
       None \<Rightarrow> defaultState
     | Some raw \<Rightarrow>
         if raw = [] then defaultState
         else case parse json raw of
           None \<Rightarrow> defaultState
         | Some parsed \<Rightarrow>
             \<lparr>inventory = spread (inventory defaultState) (so_inventory parsed),
              clients = spread (clients defaultState) (so_clients parsed),
              transactions = spread (transactions defaultState) (so_transactions parsed),
              settings = spread (settings defaultState) (so_settings parsed),
              barcodeCache = spread (barcodeCache defaultState) (so_barcodeCache parsed),
              sources = spread (sources defaultState) (so_sources parsed),
              donors = spread (donors defaultState) (so_donors parsed)\<rparr>)"

definition saveState :: "JSON \<Rightarrow> Browser \<Rightarrow> RepositoryState \<Rightarrow> Browser" where
  "saveState json browser state =
    (if \<not> has_window browser \<or> setItem_throws browser then browser
     else browser\<lparr>stored := Some (stringify json state)\<rparr>)"

section \<open>Date-range distribution report\<close>

text \<open>
  The comparison \<^verbatim>\<open>a < b\<close> of two JavaScript strings: a proper prefix is smaller, and
  otherwise the first position where the strings differ decides, by character code.
\<close>

fun js_string_less :: "string \<Rightarrow> string \<Rightarrow> bool" where
  "js_string_less [] [] = False"
| "js_string_less [] (y # ys) = True"
| "js_string_less (x # xs) [] = False"
| "js_string_less (x # xs) (y # ys) =
     (if x = y then js_string_less xs ys else (of_char x :: nat) < of_char y)"

definition rangeTx :: "Transaction list \<Rightarrow> string \<Rightarrow> string \<Rightarrow> Transaction list" where
  "rangeTx txs from to =
     filter (\<lambda>tx.
        let dateOnly = take 10 (tx_timestamp tx)
        in if from \<noteq> [] \<and> js_string_less dateOnly from then False
           else if to \<noteq> [] \<and> js_string_less to dateOnly then False
           else tx_type tx = OUT)
       txs"

text \<open>The two running totals of the report, as the nested loops update them.\<close>

definition totals :: "Transaction list \<Rightarrow> real \<times> real" where
  "totals selected =
     fold (\<lambda>tx acc.
             fold (\<lambda>item (totalWeight, totalValue).
                     (totalWeight + line_weightPerUnitLbs item * of_int (line_quantity item),
                      totalValue + line_valuePerUnitUsd item * of_int (line_quantity item)))
                  (tx_items tx) acc)
          selected (0, 0)"

section \<open>Predicates of the properties\<close>

text \<open>Every item of the inventory has a quantity of at least zero.\<close>

definition quantities_nonneg :: "RepositoryState \<Rightarrow> bool" where
  "quantities_nonneg s = list_all (\<lambda>i. 0 \<le> item_quantity i) (inventory s)"

text \<open>
  A call hands no negative quantity to \<open>addOrUpdateItem\<close>: the \<^verbatim>\<open>quantity\<close> key of the partial
  is absent or holds a number that is at least zero. Every other call qualifies.
\<close>

fun quantity_input_ok :: "operation \<Rightarrow> bool" where
  "quantity_input_ok (AddOrUpdateItem partial now uid) =
     (case p_quantity partial of None \<Rightarrow> True | Some q \<Rightarrow> 0 \<le> q)"
| "quantity_input_ok _ = True"

text \<open>The items that carry a given id, and the items that carry a given barcode.\<close>

definition items_with_id :: "RepositoryState \<Rightarrow> string \<Rightarrow> InventoryItem list" where
  "items_with_id s x = filter (\<lambda>i. item_id i = Some x) (inventory s)"

definition items_with_barcode :: "RepositoryState \<Rightarrow> string \<Rightarrow> InventoryItem list" where
  "items_with_barcode s b = filter (\<lambda>i. item_barcode i = Some b) (inventory s)"

section \<open>Concrete inputs\<close>

text \<open>The partial \<^verbatim>\<open>{name: n}\<close>, and an item and states used in the examples below.\<close>

definition nameOnly :: "string \<Rightarrow> PartialInventoryItem" where
  "nameOnly n =
     \<lparr>p_id = None, p_name = n, p_category = None, p_barcode = None, p_quantity = None,
      p_weightPerUnitLbs = None, p_valuePerUnitUsd = None, p_reorderThreshold = None,
      p_allergens = None, p_createdAt = None, p_updatedAt = None\<rparr>"

definition rice :: InventoryItem where
  "rice =
     \<lparr>item_id = Some ''a'', item_name = ''Rice'', item_category = ''Grains'',
      item_barcode = Some ''123'', item_quantity = 10, item_weightPerUnitLbs = 2,
      item_valuePerUnitUsd = 3, item_reorderThreshold = None, item_allergens = None,
      item_createdAt = ''2024-01-01T00:00:00.000Z'',
      item_updatedAt = ''2024-01-01T00:00:00.000Z''\<rparr>"

definition beans :: InventoryItem where
  "beans =
     \<lparr>item_id = Some ''b'', item_name = ''Beans'', item_category = ''Canned'',
      item_barcode = Some ''456'', item_quantity = 4, item_weightPerUnitLbs = 1,
      item_valuePerUnitUsd = 2, item_reorderThreshold = None, item_allergens = None,
      item_createdAt = ''2024-01-02T00:00:00.000Z'',
      item_updatedAt = ''2024-01-02T00:00:00.000Z''\<rparr>"

definition pantry :: RepositoryState where
  "pantry = defaultState\<lparr>inventory := [rice, beans]\<rparr>"

definition jane :: OutboundClient where
  "jane = \<lparr>oc_id = None, oc_name = ''Jane'', oc_identifier = ''J1'', oc_contact = None\<rparr>"

definition checkout :: "CartLine list \<Rightarrow> OutboundOptions" where
  "checkout cart =
     \<lparr>out_client = jane, out_items = cart,
      out_timestamp = Some ''2024-03-01T10:00:00.000Z'', out_location = None\<rparr>"

definition receive :: "string \<Rightarrow> int \<Rightarrow> InboundOptions" where
  "receive itemId n =
     \<lparr>in_itemId = itemId, in_quantity = n, in_source = Some ''Donation'', in_donor = None,
      in_timestamp = Some ''2024-02-01T09:00:00.000Z'', in_location = None\<rparr>"

text \<open>
  Scenarios A, B and D in a row: an item is created, fifty units are received, twenty are
  handed out, and the quantity is then adjusted by minus one hundred.
\<close>

definition scenario :: "operation list" where
  "scenario =
     [AddOrUpdateItem ((nameOnly ''Rice'')\<lparr>p_quantity := Some 0\<rparr>) ''2024-01-01T00:00:00.000Z'' ''u1'',
      RecordInbound (receive ''u1'' 50) ''2024-02-01T09:00:00.000Z'' ''x1'',
      RecordOutbound (checkout [\<lparr>cart_itemId = ''u1'', cart_quantity = 20\<rparr>])
        ''2024-03-01T10:00:00.000Z'' ''2024-03-01T10:00:00.050Z'' ''c1'' ''x2'',
      AdjustItemQuantity ''u1'' (- 100) ''2024-03-02T10:00:00.000Z'']"

text \<open>Partials that carry a name and a barcode, or a name and an id.\<close>

definition barcodeOnly :: "string \<Rightarrow> string \<Rightarrow> PartialInventoryItem" where
  "barcodeOnly b n = (nameOnly n)\<lparr>p_barcode := Some (Some b)\<rparr>"

definition idOnly :: "string \<Rightarrow> string \<Rightarrow> PartialInventoryItem" where
  "idOnly x n = (nameOnly n)\<lparr>p_id := Some (Some x)\<rparr>"

text \<open>A ledger of three transactions, newest first, for the report.\<close>

definition ledger :: "Transaction list" where
  "ledger =
     [\<lparr>tx_id = ''x3'', tx_type = OUT, tx_timestamp = ''2024-04-01T08:00:00.000Z'',
       tx_items = [\<lparr>line_itemId = Some ''a'', line_name = ''Rice'', line_quantity = 1,
                    line_weightPerUnitLbs = 2, line_valuePerUnitUsd = 3\<rparr>],
       tx_source = None, tx_donor = None, tx_clientId = Some ''c1'', tx_clientName = Some ''Jane'',
       tx_location = None\<rparr>,
      \<lparr>tx_id = ''x2'', tx_type = OUT, tx_timestamp = ''2024-03-31T23:00:00.000Z'',
       tx_items = [\<lparr>line_itemId = Some ''a'', line_name = ''Rice'', line_quantity = 2,
                    line_weightPerUnitLbs = 2, line_valuePerUnitUsd = 3\<rparr>,
                   \<lparr>line_itemId = Some ''b'', line_name = ''Beans'', line_quantity = 4,
                    line_weightPerUnitLbs = 1, line_valuePerUnitUsd = 2\<rparr>],
       tx_source = None, tx_donor = None, tx_clientId = Some ''c1'', tx_clientName = Some ''Jane'',
       tx_location = None\<rparr>,
      \<lparr>tx_id = ''x1'', tx_type = IN, tx_timestamp = ''2024-03-01T09:00:00.000Z'',
       tx_items = [\<lparr>line_itemId = Some ''a'', line_name = ''Rice'', line_quantity = 50,
                    line_weightPerUnitLbs = 2, line_valuePerUnitUsd = 3\<rparr>],
       tx_source = Some ''Donation'', tx_donor = None, tx_clientId = None, tx_clientName = None,
       tx_location = None\<rparr>]"

text \<open>A cache entry as the barcode lookup delivers it.\<close>

definition riceEntry :: BarcodeCacheInput where
  "riceEntry = \<lparr>ci_name = Some ''Rice'', ci_category = Some ''Grains'',
      ci_weightPerUnitLbs = Some 2, ci_allergens = None\<rparr>"

text \<open>
  A browser whose storage works and holds the given text, the parsed object without any
  field, and a JSON implementation cut down to the two texts of the example: the text
  written for a state, which parses to the object of \<open>pantry\<close>, and the text of an object
  that holds nothing but a list of sources.
\<close>

definition emptyObject :: StoredObject where
  "emptyObject =
     \<lparr>so_inventory = None, so_clients = None, so_transactions = None, so_settings = None,
      so_barcodeCache = None, so_sources = None, so_donors = None\<rparr>"

definition pantryJSON :: JSON where
  "pantryJSON =
     \<lparr>stringify = (\<lambda>s. ''{pantry}''),
      parse = (\<lambda>raw. if raw = ''{pantry}'' then Some (storedObject pantry)
                      else if raw = ''{sources:[Shelf]}'' then Some (emptyObject\<lparr>so_sources := Some [''Shelf'']\<rparr>)
                      else None)\<rparr>"

definition browser :: "string option \<Rightarrow> Browser" where
  "browser content =
     \<lparr>has_window = True, getItem_throws = False, setItem_throws = False, stored = content\<rparr>"

section \<open>Auxiliary facts\<close>

lemmas js_defs = read_key_def spread_def nullish_def truthy_def Let_def

lemma find_in_set: "find P xs = Some x \<Longrightarrow> x \<in> set xs"
  by (induction xs) (auto split: if_splits)

lemma find_None_iff_all: "find P xs = None \<longleftrightarrow> (\<forall>x\<in>set xs. \<not> P x)"
  by (induction xs) auto

lemma addOrUpdateItem_settled:
  "addOrUpdateItem state partial now uid =
    (case existingItem state partial of
       Some e \<Rightarrow>
         (let updated =
            \<lparr>item_id = spread (item_id e) (p_id partial),
             item_name = p_name partial,
             item_category = spread (item_category e) (p_category partial),
             item_barcode = spread (item_barcode e) (p_barcode partial),
             item_quantity = spread (item_quantity e) (p_quantity partial),
             item_weightPerUnitLbs = spread (item_weightPerUnitLbs e) (p_weightPerUnitLbs partial),
             item_valuePerUnitUsd = spread (item_valuePerUnitUsd e) (p_valuePerUnitUsd partial),
             item_reorderThreshold = spread (item_reorderThreshold e) (p_reorderThreshold partial),
             item_allergens = spread (item_allergens e) (p_allergens partial),
             item_createdAt = spread (item_createdAt e) (p_createdAt partial),
             item_updatedAt = now\<rparr>
          in (updated,
              state\<lparr>inventory := map (\<lambda>i. if item_id i = item_id e then updated else i)
                                     (inventory state)\<rparr>))
     | None \<Rightarrow>
         (let item =
            \<lparr>item_id = Some (nullish (read_key (p_id partial)) uid),
             item_name = p_name partial,
             item_category = nullish (p_category partial) ''Uncategorized'',
             item_barcode =
               (case read_key (p_barcode partial) of
                  None \<Rightarrow> None
                | Some b \<Rightarrow> if trim b = [] then None else Some (trim b)),
             item_quantity = nullish (p_quantity partial) 0,
             item_weightPerUnitLbs = nullish (p_weightPerUnitLbs partial) 0,
             item_valuePerUnitUsd = nullish (p_valuePerUnitUsd partial) 0,
             item_reorderThreshold = read_key (p_reorderThreshold partial),
             item_allergens = read_key (p_allergens partial),
             item_createdAt = now,
             item_updatedAt = now\<rparr>
          in (item, state\<lparr>inventory := inventory state @ [item]\<rparr>)))"
  by (simp add: addOrUpdateItem_def addOrUpdateItem_queued_def Let_def split: option.splits)

lemma existingItem_in_inventory: "existingItem s partial = Some e \<Longrightarrow> e \<in> set (inventory s)"
  by (auto simp: existingItem_def split: option.splits if_splits dest: find_in_set)

lemma upsertClient_queued_inventory:
  "upsertClient_queued state partial now uid = (client, updater) \<Longrightarrow>
     inventory (updater prev) = inventory prev"
  unfolding upsertClient_queued_def Let_def
  by (auto split: option.splits)

lemma upsertClient_queued_transactions:
  "upsertClient_queued state partial now uid = (client, updater) \<Longrightarrow>
     transactions (updater prev) = transactions prev"
  unfolding upsertClient_queued_def Let_def
  by (auto split: option.splits)

lemma recordOutbound_empty: "out_items options = [] \<Longrightarrow> recordOutbound s options now nc uc ut = s"
  by (simp add: recordOutbound_def)

lemma recordOutbound_nonempty:
  "out_items options \<noteq> [] \<Longrightarrow>
     recordOutbound s options now nc uc ut =
       recordOutbound_updater options (nullish (out_timestamp options) now)
         (fst (upsertClient_queued s (clientPartial (out_client options)) nc uc)) ut s"
  by (simp add: recordOutbound_def)

lemma find_Some_D: "find P xs = Some x \<Longrightarrow> x \<in> set xs \<and> P x"
  by (induction xs) (auto split: if_splits)

lemma map_filter_nonempty:
  assumes "x \<in> set xs" and "f x \<noteq> None"
  shows "List.map_filter f xs \<noteq> []"
  using assms by (induction xs) (auto simp: List.map_filter_simps split: option.splits)

lemma map_filter_empty: "(\<forall>x\<in>set xs. f x = None) \<Longrightarrow> List.map_filter f xs = []"
  by (induction xs) (simp_all add: List.map_filter_simps)

lemma find_distinct_key:
  "distinct (map f xs) \<Longrightarrow> l \<in> set xs \<Longrightarrow> find (\<lambda>i. f i = f l) xs = Some l"
  by (induction xs) (auto simp: image_iff)

section \<open>Quantities never go below zero\<close>

lemma addOrUpdateItem_nonneg:
  assumes "quantities_nonneg s"
    and "case p_quantity partial of None \<Rightarrow> True | Some q \<Rightarrow> 0 \<le> q"
  shows "quantities_nonneg (snd (addOrUpdateItem s partial now uid))"
proof -
  have inv: "\<forall>i\<in>set (inventory s). 0 \<le> item_quantity i"
    using assms(1) by (simp add: quantities_nonneg_def list_all_iff)
  have sp: "\<And>e. e \<in> set (inventory s) \<Longrightarrow> 0 \<le> spread (item_quantity e) (p_quantity partial)"
    using assms(2) inv by (auto simp: spread_def split: option.splits)
  have nu: "0 \<le> nullish (p_quantity partial) 0"
    using assms(2) by (auto simp: nullish_def split: option.splits)
  show ?thesis
    unfolding addOrUpdateItem_settled Let_def quantities_nonneg_def list_all_iff
    using inv sp nu
    by (auto split: option.splits dest!: existingItem_in_inventory)
qed

lemma adjustItemQuantity_nonneg:
  "quantities_nonneg s \<Longrightarrow> quantities_nonneg (adjustItemQuantity s itemId delta now)"
  by (auto simp: adjustItemQuantity_def quantities_nonneg_def list_all_iff)

lemma recordInbound_nonneg:
  "quantities_nonneg s \<Longrightarrow> quantities_nonneg (recordInbound s options now uid)"
  unfolding recordInbound_def Let_def quantities_nonneg_def list_all_iff
  by (auto split: option.splits)

lemma recordOutbound_updater_nonneg:
  "quantities_nonneg s \<Longrightarrow> quantities_nonneg (recordOutbound_updater options ts client uid s)"
  unfolding recordOutbound_updater_def Let_def quantities_nonneg_def list_all_iff
  by (auto split: option.splits)

lemma recordOutbound_nonneg:
  assumes "quantities_nonneg s"
  shows "quantities_nonneg (recordOutbound s options now nc uc ut)"
proof (cases "out_items options = []")
  case True
  then show ?thesis using assms by (simp add: recordOutbound_empty)
next
  case False
  then show ?thesis
    using recordOutbound_updater_nonneg[OF assms] by (simp add: recordOutbound_nonempty)
qed

lemma upsertClient_nonneg:
  "quantities_nonneg s \<Longrightarrow> quantities_nonneg (snd (upsertClient s partial now uid))"
  by (cases "upsertClient_queued s partial now uid")
     (simp add: upsertClient_def quantities_nonneg_def upsertClient_queued_inventory)

lemma apply_operation_nonneg:
  assumes "quantities_nonneg s" and "quantity_input_ok op"
  shows "quantities_nonneg (apply_operation s op)"
proof (cases op)
  case (AddOrUpdateItem p n u)
  with assms show ?thesis by (simp add: addOrUpdateItem_nonneg)
next
  case (UpdateSettings p)
  with assms(1) show ?thesis by (simp add: quantities_nonneg_def updateSettings_def)
next
  case (UpsertBarcodeCache b e n)
  with assms(1) show ?thesis by (simp add: quantities_nonneg_def upsertBarcodeCache_def)
next
  case (AddSource x)
  with assms(1) show ?thesis by (simp add: quantities_nonneg_def addSource_def)
next
  case (AddDonor x)
  with assms(1) show ?thesis by (simp add: quantities_nonneg_def addDonor_def)
qed (use assms(1) in \<open>simp_all add: adjustItemQuantity_nonneg recordInbound_nonneg
       recordOutbound_nonneg upsertClient_nonneg\<close>)

lemma run_nonneg:
  "quantities_nonneg s \<Longrightarrow> list_all quantity_input_ok ops \<Longrightarrow> quantities_nonneg (run s ops)"
  unfolding run_def
  by (induction ops arbitrary: s) (auto simp: apply_operation_nonneg)

text \<open>
  Claim C1, as amended. Starting from the default state, after every sequence of engine
  operations in which no call of \<open>addOrUpdateItem\<close> is handed a negative quantity, every
  inventory item has a quantity of at least zero.
\<close>

theorem quantities_nonneg_after_run:
  "list_all quantity_input_ok ops \<Longrightarrow> quantities_nonneg (run defaultState ops)"
  by (rule run_nonneg) (simp add: quantities_nonneg_def defaultState_def)

theorem quantities_nonneg_after_run_witness:
  "list_all quantity_input_ok scenario \<and> quantities_nonneg (run defaultState scenario)"
proof -
  have ok: "list_all quantity_input_ok scenario"
    by (simp add: scenario_def nameOnly_def)
  from quantities_nonneg_after_run [OF ok] ok show ?thesis by simp
qed

text \<open>
  Claim C1 as stated fails: \<open>addOrUpdateItem\<close> stores the quantity of the partial as it is,
  so one call on the default state leaves an item with quantity minus five.
\<close>

theorem negative_quantity_counterexample:
  "map item_quantity
     (inventory (run defaultState
        [AddOrUpdateItem ((nameOnly ''Rice'')\<lparr>p_quantity := Some (- 5)\<rparr>)
           ''2024-01-01T00:00:00.000Z'' ''u1''])) = [- 5]"
  by (simp add: run_def addOrUpdateItem_settled existingItem_def defaultState_def nameOnly_def js_defs)

section \<open>A check-out whose cart names no existing item\<close>

lemma recordOutbound_updater_abort:
  assumes "\<forall>l\<in>set (out_items options). \<forall>i\<in>set (inventory s). item_id i \<noteq> Some (cart_itemId l)"
  shows "recordOutbound_updater options ts client uid s = s"
proof -
  from assms have "\<forall>l\<in>set (out_items options).
      find (\<lambda>item. item_id item = Some (cart_itemId l)) (inventory s) = None"
    by (simp add: find_None_iff_all)
  then have "List.map_filter
             (\<lambda>i. case find (\<lambda>item. item_id item = Some (cart_itemId i)) (inventory s) of
                     None \<Rightarrow> None
                   | Some base \<Rightarrow>
                       Some \<lparr>line_itemId = item_id base, line_name = item_name base,
                             line_quantity = cart_quantity i,
                             line_weightPerUnitLbs = item_weightPerUnitLbs base,
                             line_valuePerUnitUsd = item_valuePerUnitUsd base\<rparr>)
             (out_items options) = []"
    by (intro map_filter_empty) simp
  then show ?thesis by (simp add: recordOutbound_updater_def Let_def)
qed

text \<open>On a settled provider such a call leaves the state as it is.\<close>

lemma recordOutbound_abort_settled:
  assumes "\<forall>l\<in>set (out_items options). \<forall>i\<in>set (inventory s). item_id i \<noteq> Some (cart_itemId l)"
  shows "recordOutbound s options now nc uc ut = s"
proof (cases "out_items options = []")
  case True
  then show ?thesis by (simp add: recordOutbound_empty)
next
  case False
  then show ?thesis
    by (simp add: recordOutbound_nonempty recordOutbound_updater_abort[OF assms])
qed

text \<open>
  Behind a pending update the state after the call is the state before it with the client
  updater of \<open>upsertClient\<close> applied.
\<close>

lemma recordOutbound_pending_abort:
  assumes "out_items options \<noteq> []"
    and "\<forall>l\<in>set (out_items options). \<forall>i\<in>set (inventory prev). item_id i \<noteq> Some (cart_itemId l)"
  shows "recordOutbound_pending s options now nc uc ut prev =
           snd (upsertClient_queued s (clientPartial (out_client options)) nc uc) prev"
  using assms(1)
  by (simp add: recordOutbound_pending_def recordOutbound_updater_abort[OF assms(2)]
      split: prod.splits)

text \<open>
  Claim C2 says that a call of \<open>recordOutbound\<close> with a non-empty cart in which no line
  names an existing item changes nothing: no transaction, no change of the inventory, no
  client created or updated. The updater returns \<^verbatim>\<open>prev\<close> in that case, but it has called
  \<open>upsertClient\<close> before, which has called \<^verbatim>\<open>setState\<close>. On a settled provider that inner
  update is lost and the state stays as it is. Behind a pending update it is applied: when
  one event handler calls \<^verbatim>\<open>addSource("Shelf")\<close> and then \<open>recordOutbound\<close> with a cart of one
  line for the unknown item \<^verbatim>\<open>missing\<close>, both on the default state, the inventory and the
  ledger stay empty and the client Jane is created.
\<close>

theorem recordOutbound_abort_behind_pending_update:
  "clients (recordOutbound_pending defaultState
      (checkout [\<lparr>cart_itemId = ''missing'', cart_quantity = 1\<rparr>])
      ''2024-03-01T10:00:00.000Z'' ''2024-03-01T10:00:00.050Z'' ''c1'' ''x1''
      (addSource defaultState ''Shelf'')) =
     [\<lparr>client_id = Some ''c1'', client_name = ''Jane'', client_identifier = ''J1'',
       client_contact = None, client_allergies = None, client_notes = None,
       client_createdAt = ''2024-03-01T10:00:00.050Z'',
       client_updatedAt = ''2024-03-01T10:00:00.050Z''\<rparr>]
   \<and> inventory (recordOutbound_pending defaultState
      (checkout [\<lparr>cart_itemId = ''missing'', cart_quantity = 1\<rparr>])
      ''2024-03-01T10:00:00.000Z'' ''2024-03-01T10:00:00.050Z'' ''c1'' ''x1''
      (addSource defaultState ''Shelf'')) = []
   \<and> transactions (recordOutbound_pending defaultState
      (checkout [\<lparr>cart_itemId = ''missing'', cart_quantity = 1\<rparr>])
      ''2024-03-01T10:00:00.000Z'' ''2024-03-01T10:00:00.050Z'' ''c1'' ''x1''
      (addSource defaultState ''Shelf'')) = []
   \<and> clients (addSource defaultState ''Shelf'') = []
   \<and> clients (recordOutbound defaultState
      (checkout [\<lparr>cart_itemId = ''missing'', cart_quantity = 1\<rparr>])
      ''2024-03-01T10:00:00.000Z'' ''2024-03-01T10:00:00.050Z'' ''c1'' ''x1'') = []"
  by (simp add: recordOutbound_pending_def recordOutbound_def recordOutbound_updater_def
      upsertClient_queued_def existingClient_def clientPartial_def checkout_def jane_def
      addSource_def defaultState_def List.map_filter_simps js_defs)

section \<open>Stock taken by a check-out\<close>

text \<open>
  With one cart line per item id, the item a line names ends with its quantity reduced by
  the quantity of the line, and not below zero.
\<close>

lemma recordOutbound_distinct_cart:
  assumes d: "distinct (map cart_itemId (out_items options))"
    and l: "line \<in> set (out_items options)"
    and k: "k < length (inventory s)" "item_id (inventory s ! k) = Some (cart_itemId line)"
  shows "item_quantity (inventory (recordOutbound s options now nc uc ut) ! k)
           = max 0 (item_quantity (inventory s ! k) - cart_quantity line)"
proof -
  from l have ne: "out_items options \<noteq> []" by auto
  from k have "inventory s ! k \<in> set (inventory s)" by simp
  with k(2) have "find (\<lambda>item. item_id item = Some (cart_itemId line)) (inventory s) \<noteq> None"
    by (auto simp: find_None_iff_all)
  then have "(case find (\<lambda>item. item_id item = Some (cart_itemId line)) (inventory s) of
                     None \<Rightarrow> None
                   | Some base \<Rightarrow>
                       Some \<lparr>line_itemId = item_id base, line_name = item_name base,
                             line_quantity = cart_quantity line,
                             line_weightPerUnitLbs = item_weightPerUnitLbs base,
                             line_valuePerUnitUsd = item_valuePerUnitUsd base\<rparr>) \<noteq> None"
    by (auto split: option.splits)
  with l have tx: "List.map_filter
             (\<lambda>i. case find (\<lambda>item. item_id item = Some (cart_itemId i)) (inventory s) of
                     None \<Rightarrow> None
                   | Some base \<Rightarrow>
                       Some \<lparr>line_itemId = item_id base, line_name = item_name base,
                             line_quantity = cart_quantity i,
                             line_weightPerUnitLbs = item_weightPerUnitLbs base,
                             line_valuePerUnitUsd = item_valuePerUnitUsd base\<rparr>)
             (out_items options) \<noteq> []"
    by (rule map_filter_nonempty)
  have "find (\<lambda>i. Some (cart_itemId i) = item_id (inventory s ! k)) (out_items options)
        = find (\<lambda>i. cart_itemId i = cart_itemId line) (out_items options)"
    by (simp add: k(2))
  also have "\<dots> = Some line" using d l by (rule find_distinct_key)
  finally have f: "find (\<lambda>i. Some (cart_itemId i) = item_id (inventory s ! k)) (out_items options)
        = Some line" .
  show ?thesis
    using tx k(1) f
    by (simp add: recordOutbound_nonempty[OF ne] recordOutbound_updater_def Let_def)
qed

text \<open>
  Claim C3 says that every cart line reduces the quantity of its item, also when several
  lines name the same item. The inventory step looks up the first cart line with the id of
  the item only: with ten units of rice and the lines 2 and 3 for rice, eight units remain,
  while the transaction lists both lines.
\<close>

theorem recordOutbound_repeated_line:
  "map item_quantity (inventory (recordOutbound pantry
      (checkout [\<lparr>cart_itemId = ''a'', cart_quantity = 2\<rparr>, \<lparr>cart_itemId = ''a'', cart_quantity = 3\<rparr>])
      ''2024-03-01T10:00:00.000Z'' ''2024-03-01T10:00:00.050Z'' ''c1'' ''x1'')) = [8, 4]
   \<and> map (\<lambda>tx. map line_quantity (tx_items tx)) (transactions (recordOutbound pantry
      (checkout [\<lparr>cart_itemId = ''a'', cart_quantity = 2\<rparr>, \<lparr>cart_itemId = ''a'', cart_quantity = 3\<rparr>])
      ''2024-03-01T10:00:00.000Z'' ''2024-03-01T10:00:00.050Z'' ''c1'' ''x1'')) = [[2, 3]]
   \<and> map item_quantity (inventory pantry) = [10, 4]"
  by (simp add: recordOutbound_def recordOutbound_updater_def upsertClient_queued_def
      existingClient_def clientPartial_def checkout_def jane_def defaultState_def pantry_def
      rice_def beans_def List.map_filter_simps js_defs)

section \<open>Updating an existing item\<close>

text \<open>
  On an update the id and the creation time of the result are those of the existing item
  only if the partial has no such key; the update time is the time of the call.
\<close>

lemma addOrUpdateItem_update_identity:
  assumes "existingItem s p = Some e"
  shows "item_id (fst (addOrUpdateItem s p now uid)) = (case p_id p of None \<Rightarrow> item_id e | Some v \<Rightarrow> v)"
    and "item_createdAt (fst (addOrUpdateItem s p now uid))
           = (case p_createdAt p of None \<Rightarrow> item_createdAt e | Some t \<Rightarrow> t)"
    and "item_updatedAt (fst (addOrUpdateItem s p now uid)) = now"
  using assms by (simp_all add: addOrUpdateItem_settled Let_def spread_def)

text \<open>
  Claim C4 says that an update keeps the id and \<^verbatim>\<open>createdAt\<close> of the existing item even when
  the partial carries different ones. The spread copies both keys from the partial: a
  partial with the unknown id \<^verbatim>\<open>z\<close>, the barcode of the rice and a creation time of its own
  resolves to the rice by barcode, and the result has the id \<^verbatim>\<open>z\<close> and the creation time of
  the partial. A partial whose \<^verbatim>\<open>id\<close> key holds \<^verbatim>\<open>undefined\<close>, as the inventory form submits it
  for a new item, leaves the rice without an id.
\<close>

theorem addOrUpdateItem_overwrites_id_and_createdAt:
  "existingItem pantry
      ((nameOnly ''Brown rice'')\<lparr>p_id := Some (Some ''z''), p_barcode := Some (Some ''123''),
                                   p_createdAt := Some ''2025-05-05T00:00:00.000Z''\<rparr>) = Some rice
   \<and> fst (addOrUpdateItem pantry
      ((nameOnly ''Brown rice'')\<lparr>p_id := Some (Some ''z''), p_barcode := Some (Some ''123''),
                                   p_createdAt := Some ''2025-05-05T00:00:00.000Z''\<rparr>)
      ''2024-04-01T00:00:00.000Z'' ''u9'') =
    rice\<lparr>item_id := Some ''z'', item_name := ''Brown rice'',
          item_createdAt := ''2025-05-05T00:00:00.000Z'',
          item_updatedAt := ''2024-04-01T00:00:00.000Z''\<rparr>
   \<and> item_id rice = Some ''a'' \<and> item_createdAt rice = ''2024-01-01T00:00:00.000Z''
   \<and> fst (addOrUpdateItem pantry
      ((nameOnly ''Brown rice'')\<lparr>p_id := Some None, p_barcode := Some (Some ''123'')\<rparr>)
      ''2024-04-01T00:00:00.000Z'' ''u9'') =
    rice\<lparr>item_id := None, item_name := ''Brown rice'',
          item_updatedAt := ''2024-04-01T00:00:00.000Z''\<rparr>"
  by (simp add: addOrUpdateItem_settled existingItem_def nameOnly_def pantry_def rice_def beans_def
      defaultState_def js_defs)

section \<open>Receiving stock\<close>

text \<open>
  Claim C5. \<open>recordInbound\<close> returns the state unchanged when the quantity is at most zero
  or no item has the given id. Otherwise, with \<open>item\<close> the first item of that id before the
  call: the inventory keeps its length, every item of that id has its quantity raised by
  the given quantity and its update time set to the timestamp, every other item is
  unchanged; the ledger is the old ledger with one IN transaction in front, whose single
  line carries the given quantity and the name, weight and value of \<open>item\<close>; clients,
  settings, barcode cache, sources and donors are unchanged.
\<close>

theorem recordInbound_effect:
  "(in_quantity options \<le> 0 \<or> (\<forall>i\<in>set (inventory s). item_id i \<noteq> Some (in_itemId options))
      \<longrightarrow> recordInbound s options now uid = s)
   \<and> (0 < in_quantity options \<and>
        find (\<lambda>i. item_id i = Some (in_itemId options)) (inventory s) = Some item
      \<longrightarrow> (let s' = recordInbound s options now uid;
               timestamp = (case in_timestamp options of None \<Rightarrow> now | Some t \<Rightarrow> t)
           in length (inventory s') = length (inventory s)
            \<and> (\<forall>k<length (inventory s).
                  inventory s' ! k =
                    (if item_id (inventory s ! k) = Some (in_itemId options)
                     then (inventory s ! k)
                            \<lparr>item_quantity := item_quantity (inventory s ! k) + in_quantity options,
                             item_updatedAt := timestamp\<rparr>
                     else inventory s ! k))
            \<and> transactions s' =
                \<lparr>tx_id = uid, tx_type = IN, tx_timestamp = timestamp,
                 tx_items =
                   [\<lparr>line_itemId = item_id item, line_name = item_name item,
                     line_quantity = in_quantity options,
                     line_weightPerUnitLbs = item_weightPerUnitLbs item,
                     line_valuePerUnitUsd = item_valuePerUnitUsd item\<rparr>],
                 tx_source = in_source options, tx_donor = in_donor options,
                 tx_clientId = None, tx_clientName = None,
                 tx_location = in_location options\<rparr> # transactions s
            \<and> clients s' = clients s \<and> settings s' = settings s
            \<and> barcodeCache s' = barcodeCache s \<and> sources s' = sources s \<and> donors s' = donors s))"
proof (intro conjI impI)
  assume "in_quantity options \<le> 0 \<or> (\<forall>i\<in>set (inventory s). item_id i \<noteq> Some (in_itemId options))"
  then show "recordInbound s options now uid = s"
  proof
    assume "in_quantity options \<le> 0"
    then show ?thesis by (simp add: recordInbound_def Let_def)
  next
    assume "\<forall>i\<in>set (inventory s). item_id i \<noteq> Some (in_itemId options)"
    then have "find (\<lambda>i. item_id i = Some (in_itemId options)) (inventory s) = None"
      by (simp add: find_None_iff_all)
    then show ?thesis by (simp add: recordInbound_def Let_def)
  qed
next
  assume "0 < in_quantity options \<and>
        find (\<lambda>i. item_id i = Some (in_itemId options)) (inventory s) = Some item"
  then show "let s' = recordInbound s options now uid;
               timestamp = (case in_timestamp options of None \<Rightarrow> now | Some t \<Rightarrow> t)
           in length (inventory s') = length (inventory s)
            \<and> (\<forall>k<length (inventory s).
                  inventory s' ! k =
                    (if item_id (inventory s ! k) = Some (in_itemId options)
                     then (inventory s ! k)
                            \<lparr>item_quantity := item_quantity (inventory s ! k) + in_quantity options,
                             item_updatedAt := timestamp\<rparr>
                     else inventory s ! k))
            \<and> transactions s' =
                \<lparr>tx_id = uid, tx_type = IN, tx_timestamp = timestamp,
                 tx_items =
                   [\<lparr>line_itemId = item_id item, line_name = item_name item,
                     line_quantity = in_quantity options,
                     line_weightPerUnitLbs = item_weightPerUnitLbs item,
                     line_valuePerUnitUsd = item_valuePerUnitUsd item\<rparr>],
                 tx_source = in_source options, tx_donor = in_donor options,
                 tx_clientId = None, tx_clientName = None,
                 tx_location = in_location options\<rparr> # transactions s
            \<and> clients s' = clients s \<and> settings s' = settings s
            \<and> barcodeCache s' = barcodeCache s \<and> sources s' = sources s \<and> donors s' = donors s"
    by (simp add: recordInbound_def Let_def nullish_def)
qed

text \<open>
  Five units of rice received in \<open>pantry\<close>: the rice goes from ten to fifteen and the ledger
  has one entry; a receipt of zero units leaves \<open>pantry\<close> as it is.
\<close>

theorem recordInbound_effect_witness:
  "(0 < in_quantity (receive ''a'' 5) \<and>
     find (\<lambda>i. item_id i = Some (in_itemId (receive ''a'' 5))) (inventory pantry) = Some rice)
   \<and> item_quantity (inventory (recordInbound pantry (receive ''a'' 5) ''2024-02-01T09:00:00.000Z'' ''x1'') ! 0) = 15
   \<and> length (transactions (recordInbound pantry (receive ''a'' 5) ''2024-02-01T09:00:00.000Z'' ''x1'')) = 1
   \<and> (in_quantity (receive ''a'' 0) \<le> 0 \<and>
       recordInbound pantry (receive ''a'' 0) ''2024-02-01T09:00:00.000Z'' ''x1'' = pantry)"
proof -
  have h: "0 < in_quantity (receive ''a'' 5) \<and>
     find (\<lambda>i. item_id i = Some (in_itemId (receive ''a'' 5))) (inventory pantry) = Some rice"
    by (simp add: receive_def pantry_def rice_def beans_def defaultState_def)
  have r: "in_quantity (receive ''a'' 0) \<le> 0" by (simp add: receive_def)
  note a = recordInbound_effect[of "receive ''a'' 5" pantry "''2024-02-01T09:00:00.000Z''" "''x1''" rice,
      THEN conjunct2, rule_format, OF h]
  note b = recordInbound_effect[of "receive ''a'' 0" pantry "''2024-02-01T09:00:00.000Z''" "''x1''" rice,
      THEN conjunct1, rule_format, OF disjI1, OF r]
  have inv: "inventory pantry = [rice, beans]" by (simp add: pantry_def)
  have tr: "transactions pantry = []" by (simp add: pantry_def defaultState_def)
  from a have n0: "item_quantity (inventory (recordInbound pantry (receive ''a'' 5) ''2024-02-01T09:00:00.000Z'' ''x1'') ! 0) = 15"
    and txs: "length (transactions (recordInbound pantry (receive ''a'' 5) ''2024-02-01T09:00:00.000Z'' ''x1'')) = 1"
    by (simp_all add: Let_def inv tr receive_def rice_def)
  with h r b show ?thesis by simp
qed

section \<open>Identity resolution of inventory items\<close>

text \<open>
  First the calls made one after the other, each on a settled provider, so that each call
  looks at the state the call before has left. In a state whose item ids are pairwise
  distinct, two such calls with one non-empty id leave one item of that id
  (\<open>twice_same_id\<close>); and two such calls with one barcode and no id key leave one item with
  that barcode, bearing the second name, if at most one item bore it before
  (\<open>twice_same_barcode\<close>).
\<close>

lemma distinct_map_replace:
  "distinct ids \<Longrightarrow> y \<notin> set ids \<Longrightarrow> distinct (map (\<lambda>j. if j = a then y else j) ids)"
  by (induction ids) auto

lemma distinct_count_one:
  "distinct (map f xs) \<Longrightarrow> x \<in> set xs \<Longrightarrow> length (filter (\<lambda>i. f i = f x) xs) = 1"
proof (induction xs)
  case Nil
  then show ?case by simp
next
  case (Cons y ys)
  show ?case
  proof (cases "f y = f x")
    case True
    with Cons.prems have "f x \<notin> f ` set ys" by auto
    then have "\<forall>z\<in>set ys. f z \<noteq> f x" by (metis imageI)
    then have "filter (\<lambda>i. f i = f x) ys = []" by (simp add: filter_empty_conv)
    with True show ?thesis by simp
  next
    case False
    with Cons show ?thesis by auto
  qed
qed

lemma addOrUpdateItem_ids:
  assumes d: "distinct (map item_id (inventory s))"
    and k: "read_key (p_id p) = Some x" and x: "x \<noteq> []"
  shows "distinct (map item_id (inventory (snd (addOrUpdateItem s p now uid))))
       \<and> Some x \<in> item_id ` set (inventory (snd (addOrUpdateItem s p now uid)))"
proof -
  from k have pid: "p_id p = Some (Some x)"
    by (auto simp: read_key_def split: option.splits)
  have tr: "truthy (read_key (p_id p))" using k x by (simp add: truthy_def)
  show ?thesis
  proof (cases "find (\<lambda>i. item_id i = Some x) (inventory s)")
    case (Some e)
    then have ex: "existingItem s p = Some e" using tr k by (simp add: existingItem_def)
    from Some have e: "e \<in> set (inventory s)" "item_id e = Some x"
      by (auto dest: find_Some_D)
    have ids: "map item_id (inventory (snd (addOrUpdateItem s p now uid))) = map item_id (inventory s)"
      using e by (simp add: addOrUpdateItem_settled ex Let_def pid spread_def cong: map_cong)
    with d e show ?thesis
      by (metis image_eqI list.set_map)
  next
    case None
    then have fresh: "Some x \<notin> set (map item_id (inventory s))"
      by (auto simp: find_None_iff_all)
    show ?thesis
    proof (cases "existingItem s p")
      case None
      then show ?thesis using d fresh
        by (simp add: addOrUpdateItem_settled Let_def k nullish_def)
    next
      case (Some e)
      then have e: "e \<in> set (inventory s)" by (rule existingItem_in_inventory)
      have ids: "map item_id (inventory (snd (addOrUpdateItem s p now uid)))
                 = map (\<lambda>j. if j = item_id e then Some x else j) (map item_id (inventory s))"
        by (simp add: addOrUpdateItem_settled Some Let_def pid spread_def comp_def if_distrib cong: if_cong)
      have "Some x \<in> set (map (\<lambda>j. if j = item_id e then Some x else j) (map item_id (inventory s)))"
        using e by auto
      with distinct_map_replace[OF d fresh, of "item_id e"] ids show ?thesis
        by (metis list.set_map)
    qed
  qed
qed

lemma twice_same_id:
  assumes d: "distinct (map item_id (inventory s))"
    and x: "x \<noteq> []" and k1: "read_key (p_id p1) = Some x" and k2: "read_key (p_id p2) = Some x"
  shows "length (items_with_id (snd (addOrUpdateItem (snd (addOrUpdateItem s p1 now1 uid1)) p2 now2 uid2)) x) = 1"
proof -
  let ?s1 = "snd (addOrUpdateItem s p1 now1 uid1)"
  let ?s2 = "snd (addOrUpdateItem ?s1 p2 now2 uid2)"
  from addOrUpdateItem_ids[OF d k1 x] have d1: "distinct (map item_id (inventory ?s1))" by blast
  from addOrUpdateItem_ids[OF d1 k2 x] have d2: "distinct (map item_id (inventory ?s2))"
    and "Some x \<in> item_id ` set (inventory ?s2)" by blast+
  then obtain i where i: "i \<in> set (inventory ?s2)" "item_id i = Some x" by auto
  from distinct_count_one[OF d2 i(1)] i(2) show ?thesis
    by (simp add: items_with_id_def)
qed

lemma at_most_one_unique:
  "length (filter P xs) \<le> 1 \<Longrightarrow> a \<in> set xs \<Longrightarrow> P a \<Longrightarrow> b \<in> set xs \<Longrightarrow> P b \<Longrightarrow> a = b"
proof -
  assume l: "length (filter P xs) \<le> 1" and "a \<in> set xs" "P a" "b \<in> set xs" "P b"
  then have ab: "a \<in> set (filter P xs)" "b \<in> set (filter P xs)" by auto
  show "a = b"
  proof (cases "filter P xs")
    case Nil
    with ab show ?thesis by simp
  next
    case (Cons y ys)
    with l have "ys = []" by simp
    with Cons ab show ?thesis by simp
  qed
qed

lemma filter_map_replace:
  assumes "distinct (map f xs)" and "e \<in> set xs" and "P u"
    and "\<forall>x\<in>set xs. P x \<longrightarrow> x = e"
  shows "filter P (map (\<lambda>i. if f i = f e then u else i) xs) = [u]"
  using assms
proof (induction xs)
  case Nil
  then show ?case by simp
next
  case (Cons y ys)
  show ?case
  proof (cases "y = e")
    case True
    with Cons.prems(1) have ne: "f e \<notin> f ` set ys" by auto
    then have "e \<notin> set ys" by auto
    with Cons.prems(4) have noP: "\<forall>x\<in>set ys. \<not> P x" by auto
    from ne have "map (\<lambda>i. if f i = f e then u else i) ys = ys"
      by (intro map_idI) (metis imageI)
    with noP True Cons.prems(3) show ?thesis by (simp add: filter_empty_conv)
  next
    case False
    with Cons.prems(2) have e: "e \<in> set ys" by simp
    with Cons.prems(1) have fy: "f y \<noteq> f e" by (metis distinct.simps(2) imageI list.simps(9) list.set_map)
    from Cons.prems(4) False have nP: "\<not> P y" by auto
    from Cons.IH[OF _ e Cons.prems(3)] Cons.prems(1,4)
    have "filter P (map (\<lambda>i. if f i = f e then u else i) ys) = [u]" by simp
    with fy nP show ?thesis by simp
  qed
qed

lemma barcode_match:
  "b \<noteq> [] \<Longrightarrow> (\<lambda>i. truthy (item_barcode i) \<and> item_barcode i = Some b) = (\<lambda>i. item_barcode i = Some b)"
  by (auto simp: truthy_def fun_eq_iff)

lemma addOrUpdateItem_barcode:
  assumes d: "distinct (map item_id (inventory s))"
    and b: "b \<noteq> []" "trim b = b"
    and noid: "p_id p = None" and k: "read_key (p_barcode p) = Some b"
    and one: "length (items_with_barcode s b) \<le> 1"
    and fresh: "items_with_barcode s b = [] \<longrightarrow> Some uid \<notin> set (map item_id (inventory s))"
  shows "distinct (map item_id (inventory (snd (addOrUpdateItem s p now uid))))
       \<and> map item_name (items_with_barcode (snd (addOrUpdateItem s p now uid)) b) = [p_name p]"
proof -
  from k have pb: "p_barcode p = Some (Some b)"
    by (auto simp: read_key_def split: option.splits)
  have ex: "existingItem s p = find (\<lambda>i. item_barcode i = Some b) (inventory s)"
  proof -
    have "read_key (p_id p) = None" by (simp add: noid read_key_def)
    moreover have "truthy (Some b)" using b(1) by (simp add: truthy_def)
    moreover have "\<not> truthy None" by (simp add: truthy_def)
    ultimately show ?thesis
      by (simp add: existingItem_def k barcode_match[OF b(1)])
  qed
  show ?thesis
  proof (cases "find (\<lambda>i. item_barcode i = Some b) (inventory s)")
    case None
    then have nob: "\<forall>i\<in>set (inventory s). item_barcode i \<noteq> Some b"
      by (simp add: find_None_iff_all)
    then have emp: "items_with_barcode s b = []"
      by (simp add: items_with_barcode_def filter_empty_conv)
    with fresh have fr: "Some uid \<notin> set (map item_id (inventory s))" by simp
    from nob have f0: "filter (\<lambda>i. item_barcode i = Some b) (inventory s) = []"
      by (simp add: filter_empty_conv)
    have rk: "read_key (p_id p) = None" by (simp add: noid read_key_def)
    show ?thesis using d fr f0 b
      by (simp add: addOrUpdateItem_settled ex None Let_def rk k nullish_def items_with_barcode_def)
  next
    case (Some e)
    then have e: "e \<in> set (inventory s)" "item_barcode e = Some b"
      by (auto dest: find_Some_D)
    let ?u = "\<lparr>item_id = spread (item_id e) (p_id p),
             item_name = p_name p,
             item_category = spread (item_category e) (p_category p),
             item_barcode = spread (item_barcode e) (p_barcode p),
             item_quantity = spread (item_quantity e) (p_quantity p),
             item_weightPerUnitLbs = spread (item_weightPerUnitLbs e) (p_weightPerUnitLbs p),
             item_valuePerUnitUsd = spread (item_valuePerUnitUsd e) (p_valuePerUnitUsd p),
             item_reorderThreshold = spread (item_reorderThreshold e) (p_reorderThreshold p),
             item_allergens = spread (item_allergens e) (p_allergens p),
             item_createdAt = spread (item_createdAt e) (p_createdAt p),
             item_updatedAt = now\<rparr>"
    have inv: "inventory (snd (addOrUpdateItem s p now uid))
               = map (\<lambda>i. if item_id i = item_id e then ?u else i) (inventory s)"
      by (simp add: addOrUpdateItem_settled ex Some Let_def)
    have uid: "item_id ?u = item_id e" by (simp add: noid spread_def)
    have ub: "item_barcode ?u = Some b" by (simp add: pb spread_def)
    have ids: "map item_id (inventory (snd (addOrUpdateItem s p now uid))) = map item_id (inventory s)"
      unfolding inv using uid by (simp cong: map_cong)
    have only: "\<forall>x\<in>set (inventory s). item_barcode x = Some b \<longrightarrow> x = e"
      using at_most_one_unique[OF one[unfolded items_with_barcode_def] _ _ e] by blast
    from filter_map_replace[OF d e(1), of "\<lambda>i. item_barcode i = Some b" ?u, OF ub only]
    have "items_with_barcode (snd (addOrUpdateItem s p now uid)) b = [?u]"
      by (simp add: items_with_barcode_def inv)
    with ids d show ?thesis by simp
  qed
qed

lemma twice_same_barcode:
  assumes d: "distinct (map item_id (inventory s))"
    and b: "b \<noteq> []" "trim b = b"
    and noid: "p_id q1 = None" "p_id q2 = None"
    and k: "read_key (p_barcode q1) = Some b" "read_key (p_barcode q2) = Some b"
    and one: "length (items_with_barcode s b) \<le> 1"
    and fresh: "Some uid1 \<notin> set (map item_id (inventory s))"
  shows "map item_name (items_with_barcode
           (snd (addOrUpdateItem (snd (addOrUpdateItem s q1 now1 uid1)) q2 now2 uid2)) b) = [p_name q2]"
proof -
  let ?s1 = "snd (addOrUpdateItem s q1 now1 uid1)"
  from addOrUpdateItem_barcode[OF d b noid(1) k(1) one, of uid1 now1] fresh
  have d1: "distinct (map item_id (inventory ?s1))"
    and n1: "map item_name (items_with_barcode ?s1 b) = [p_name q1]" by simp_all
  from n1 have l1: "length (items_with_barcode ?s1 b) \<le> 1" "items_with_barcode ?s1 b \<noteq> []"
    by (auto simp: map_eq_Cons_conv)
  from addOrUpdateItem_barcode[OF d1 b noid(2) k(2) l1(1), of uid2 now2] l1(2)
  show ?thesis by simp
qed

lemma trim_123: "trim ''123'' = ''123''"
  by (simp add: trim_def js_whitespace_def)

text \<open>
  Claim C6 says that two calls of \<open>addOrUpdateItem\<close> with the same id leave one item of that
  id, and that two calls with the barcode 123 and different names leave one item with that
  barcode, bearing the second name. \<open>addOrUpdateItem\<close> looks \<^verbatim>\<open>existing\<close> up on the snapshot of
  its render and writes on \<^verbatim>\<open>prev\<close>. Two calls from one render, as in one event handler, see
  the same snapshot: on the default state both find nothing, and the updater of the second
  appends its item to the state that holds the item of the first. So the two calls leave
  two items of the id \<^verbatim>\<open>k1\<close>, and two items with the barcode 123, while the same calls made
  one after the other leave one.
\<close>

theorem addOrUpdateItem_twice_in_one_render:
  "map item_name (items_with_id
      (snd (addOrUpdateItem_queued defaultState (idOnly ''k1'' ''Rolled oats'')
              ''2024-01-02T00:00:00.000Z'' ''u2'')
         (snd (addOrUpdateItem defaultState (idOnly ''k1'' ''Oats'')
                 ''2024-01-01T00:00:00.000Z'' ''u1''))) ''k1'')
     = [''Oats'', ''Rolled oats'']
   \<and> map item_name (items_with_barcode
      (snd (addOrUpdateItem_queued defaultState (barcodeOnly ''123'' ''Rolled oats'')
              ''2024-01-02T00:00:00.000Z'' ''u2'')
         (snd (addOrUpdateItem defaultState (barcodeOnly ''123'' ''Oats'')
                 ''2024-01-01T00:00:00.000Z'' ''u1''))) ''123'')
     = [''Oats'', ''Rolled oats'']
   \<and> map item_name (items_with_id
      (snd (addOrUpdateItem
              (snd (addOrUpdateItem defaultState (idOnly ''k1'' ''Oats'')
                      ''2024-01-01T00:00:00.000Z'' ''u1''))
              (idOnly ''k1'' ''Rolled oats'') ''2024-01-02T00:00:00.000Z'' ''u2'')) ''k1'')
     = [''Rolled oats'']
   \<and> map item_name (items_with_barcode
      (snd (addOrUpdateItem
              (snd (addOrUpdateItem defaultState (barcodeOnly ''123'' ''Oats'')
                      ''2024-01-01T00:00:00.000Z'' ''u1''))
              (barcodeOnly ''123'' ''Rolled oats'') ''2024-01-02T00:00:00.000Z'' ''u2'')) ''123'')
     = [''Rolled oats'']"
  by (simp add: addOrUpdateItem_settled addOrUpdateItem_queued_def existingItem_def
      defaultState_def barcodeOnly_def idOnly_def nameOnly_def items_with_barcode_def
      items_with_id_def trim_123 js_defs)

section \<open>Round trip through the durable store\<close>

lemma loadState_saveState:
  assumes "has_window b" "\<not> getItem_throws b" "\<not> setItem_throws b"
    and "stringify json s \<noteq> []" and "parse json (stringify json s) = Some (storedObject s)"
  shows "loadState json (saveState json b s) = s"
  using assms by (cases s) (simp add: loadState_def saveState_def storedObject_def spread_def)

lemma loadState_default:
  assumes "\<not> has_window b \<or> getItem_throws b \<or> stored b = None \<or> stored b = Some []
       \<or> (\<exists>raw. stored b = Some raw \<and> parse json raw = None)"
  shows "loadState json b = defaultState"
  using assms by (auto simp: loadState_def split: option.splits)

lemma loadState_merge:
  assumes "has_window b" "\<not> getItem_throws b" "stored b = Some raw" "raw \<noteq> []"
    and "parse json raw = Some parsed"
  shows "inventory (loadState json b) = (case so_inventory parsed of None \<Rightarrow> inventory defaultState | Some v \<Rightarrow> v)"
    and "clients (loadState json b) = (case so_clients parsed of None \<Rightarrow> clients defaultState | Some v \<Rightarrow> v)"
    and "transactions (loadState json b) = (case so_transactions parsed of None \<Rightarrow> transactions defaultState | Some v \<Rightarrow> v)"
    and "settings (loadState json b) = (case so_settings parsed of None \<Rightarrow> settings defaultState | Some v \<Rightarrow> v)"
    and "barcodeCache (loadState json b) = (case so_barcodeCache parsed of None \<Rightarrow> barcodeCache defaultState | Some v \<Rightarrow> v)"
    and "sources (loadState json b) = (case so_sources parsed of None \<Rightarrow> sources defaultState | Some v \<Rightarrow> v)"
    and "donors (loadState json b) = (case so_donors parsed of None \<Rightarrow> donors defaultState | Some v \<Rightarrow> v)"
  using assms by (simp_all add: loadState_def spread_def)

text \<open>
  Claim C7. When the browser has a window, its storage neither refuses the read nor the
  write, and \<^verbatim>\<open>JSON.parse\<close> gives back the fields of the state that \<^verbatim>\<open>JSON.stringify\<close> wrote,
  \<open>saveState\<close> followed by \<open>loadState\<close> returns the state that was saved. \<open>loadState\<close> has no
  failing branch: without a window, on a refused read, on a missing or empty text and on a
  text that does not parse it returns the default state; on a parsed object it returns,
  field by field, the stored value if the field is present and the default if it is missing.
\<close>

theorem durable_store_round_trip:
  "(has_window b \<and> \<not> getItem_throws b \<and> \<not> setItem_throws b
      \<and> stringify json s \<noteq> [] \<and> parse json (stringify json s) = Some (storedObject s)
     \<longrightarrow> loadState json (saveState json b s) = s)
   \<and> (\<not> has_window b \<or> getItem_throws b \<or> stored b = None \<or> stored b = Some []
       \<or> (\<exists>raw. stored b = Some raw \<and> parse json raw = None)
     \<longrightarrow> loadState json b = defaultState)
   \<and> (has_window b \<and> \<not> getItem_throws b \<and> stored b = Some raw \<and> raw \<noteq> []
       \<and> parse json raw = Some parsed
     \<longrightarrow> inventory (loadState json b) =
           (case so_inventory parsed of None \<Rightarrow> inventory defaultState | Some v \<Rightarrow> v)
       \<and> clients (loadState json b) =
           (case so_clients parsed of None \<Rightarrow> clients defaultState | Some v \<Rightarrow> v)
       \<and> transactions (loadState json b) =
           (case so_transactions parsed of None \<Rightarrow> transactions defaultState | Some v \<Rightarrow> v)
       \<and> settings (loadState json b) =
           (case so_settings parsed of None \<Rightarrow> settings defaultState | Some v \<Rightarrow> v)
       \<and> barcodeCache (loadState json b) =
           (case so_barcodeCache parsed of None \<Rightarrow> barcodeCache defaultState | Some v \<Rightarrow> v)
       \<and> sources (loadState json b) =
           (case so_sources parsed of None \<Rightarrow> sources defaultState | Some v \<Rightarrow> v)
       \<and> donors (loadState json b) =
           (case so_donors parsed of None \<Rightarrow> donors defaultState | Some v \<Rightarrow> v))"
  using loadState_saveState[of b json s] loadState_default[of b json]
    loadState_merge[of b raw json parsed]
  by blast

text \<open>
  \<open>pantry\<close> is saved and loaded again; an empty storage loads as the default state; a stored
  object with nothing but its sources loads with those sources and the default donors.
\<close>

theorem durable_store_round_trip_witness:
  "(has_window (browser None) \<and> \<not> getItem_throws (browser None) \<and> \<not> setItem_throws (browser None)
      \<and> stringify pantryJSON pantry \<noteq> []
      \<and> parse pantryJSON (stringify pantryJSON pantry) = Some (storedObject pantry))
   \<and> loadState pantryJSON (saveState pantryJSON (browser None) pantry) = pantry
   \<and> stored (browser None) = None
   \<and> loadState pantryJSON (browser None) = defaultState
   \<and> (stored (browser (Some ''{sources:[Shelf]}'')) = Some ''{sources:[Shelf]}''
      \<and> parse pantryJSON ''{sources:[Shelf]}'' = Some (emptyObject\<lparr>so_sources := Some [''Shelf'']\<rparr>))
   \<and> sources (loadState pantryJSON (browser (Some ''{sources:[Shelf]}''))) = [''Shelf'']
   \<and> donors (loadState pantryJSON (browser (Some ''{sources:[Shelf]}''))) = donors defaultState"
proof -
  have h1: "has_window (browser None) \<and> \<not> getItem_throws (browser None) \<and> \<not> setItem_throws (browser None)
      \<and> stringify pantryJSON pantry \<noteq> []
      \<and> parse pantryJSON (stringify pantryJSON pantry) = Some (storedObject pantry)"
    by (simp add: browser_def pantryJSON_def)
  have h2: "stored (browser None) = None" by (simp add: browser_def)
  have h3: "has_window (browser (Some ''{sources:[Shelf]}''))
      \<and> \<not> getItem_throws (browser (Some ''{sources:[Shelf]}''))
      \<and> stored (browser (Some ''{sources:[Shelf]}'')) = Some ''{sources:[Shelf]}''
      \<and> ''{sources:[Shelf]}'' \<noteq> []
      \<and> parse pantryJSON ''{sources:[Shelf]}'' = Some (emptyObject\<lparr>so_sources := Some [''Shelf'']\<rparr>)"
    by (simp add: browser_def pantryJSON_def)
  from durable_store_round_trip[of "browser None" pantryJSON pantry, THEN conjunct1] h1
  have a: "loadState pantryJSON (saveState pantryJSON (browser None) pantry) = pantry"
    by (rule mp)
  from durable_store_round_trip[of "browser None" pantryJSON pantry, THEN conjunct2, THEN conjunct1] h2
  have b: "loadState pantryJSON (browser None) = defaultState"
    by simp
  from durable_store_round_trip[of "browser (Some ''{sources:[Shelf]}'')" pantryJSON pantry
      "''{sources:[Shelf]}''" "emptyObject\<lparr>so_sources := Some [''Shelf'']\<rparr>",
      THEN conjunct2, THEN conjunct2] h3
  have c: "sources (loadState pantryJSON (browser (Some ''{sources:[Shelf]}''))) = [''Shelf'']"
    and d: "donors (loadState pantryJSON (browser (Some ''{sources:[Shelf]}''))) = donors defaultState"
    by (simp_all add: emptyObject_def)
  from h1 h2 h3 a b c d show ?thesis by simp
qed

section \<open>Date-range distribution report\<close>

text \<open>The comparison of the source is the lexicographic order of strings.\<close>

lemma js_string_less_iff: "js_string_less xs ys \<longleftrightarrow> xs < ys"
  by (induction xs ys rule: js_string_less.induct) (auto simp: less_char_def)

lemma fold_totals_items:
  "fold (\<lambda>item (totalWeight, totalValue).
            (totalWeight + line_weightPerUnitLbs item * of_int (line_quantity item),
             totalValue + line_valuePerUnitUsd item * of_int (line_quantity item)))
        items (w, v) =
   (w + (\<Sum>item\<leftarrow>items. of_int (line_quantity item) * line_weightPerUnitLbs item),
    v + (\<Sum>item\<leftarrow>items. of_int (line_quantity item) * line_valuePerUnitUsd item))"
  by (induction items arbitrary: w v) (simp_all add: algebra_simps)

lemma fold_totals_transactions:
  "fold (\<lambda>tx acc.
             fold (\<lambda>item (totalWeight, totalValue).
                     (totalWeight + line_weightPerUnitLbs item * of_int (line_quantity item),
                      totalValue + line_valuePerUnitUsd item * of_int (line_quantity item)))
                  (tx_items tx) acc)
        txs (w, v) =
   (w + (\<Sum>item\<leftarrow>concat (map tx_items txs). of_int (line_quantity item) * line_weightPerUnitLbs item),
    v + (\<Sum>item\<leftarrow>concat (map tx_items txs). of_int (line_quantity item) * line_valuePerUnitUsd item))"
  by (induction txs arbitrary: w v) (simp_all add: fold_totals_items algebra_simps)

text \<open>
  Claim C8. For non-empty \<open>from\<close> and \<open>to\<close> the report selects, in ledger order, exactly the
  transactions of type OUT whose first ten timestamp characters lie between \<open>from\<close> and \<open>to\<close>
  in the lexicographic order, both ends included; and its two totals are the sums, over
  the line items of the selected transactions, of quantity times weight per unit and of
  quantity times value per unit.
\<close>

theorem report_selection_and_totals:
  assumes "from \<noteq> []" and "to \<noteq> []"
  shows "rangeTx txs from to =
           filter (\<lambda>tx. tx_type tx = OUT \<and> from \<le> take 10 (tx_timestamp tx)
                         \<and> take 10 (tx_timestamp tx) \<le> to) txs
       \<and> totals (rangeTx txs from to) =
           ((\<Sum>item\<leftarrow>concat (map tx_items (rangeTx txs from to)).
                of_int (line_quantity item) * line_weightPerUnitLbs item),
            (\<Sum>item\<leftarrow>concat (map tx_items (rangeTx txs from to)).
                of_int (line_quantity item) * line_valuePerUnitUsd item))"
proof
  show "rangeTx txs from to =
           filter (\<lambda>tx. tx_type tx = OUT \<and> from \<le> take 10 (tx_timestamp tx)
                         \<and> take 10 (tx_timestamp tx) \<le> to) txs"
    unfolding rangeTx_def Let_def js_string_less_iff
    using assms by (intro filter_cong refl) (auto simp: not_less)
  show "totals (rangeTx txs from to) =
           ((\<Sum>item\<leftarrow>concat (map tx_items (rangeTx txs from to)).
                of_int (line_quantity item) * line_weightPerUnitLbs item),
            (\<Sum>item\<leftarrow>concat (map tx_items (rangeTx txs from to)).
                of_int (line_quantity item) * line_valuePerUnitUsd item))"
    by (simp add: totals_def fold_totals_transactions)
qed

text \<open>
  March 2024 in \<open>ledger\<close>: the check-out of 31 March is selected, the check-out of 1 April
  and the receipt of 1 March are not; eight pounds and fourteen dollars went out.
\<close>

theorem report_witness:
  "''2024-03-01'' \<noteq> [] \<and> ''2024-03-31'' \<noteq> []
   \<and> map tx_id (rangeTx ledger ''2024-03-01'' ''2024-03-31'') = [''x2'']
   \<and> totals (rangeTx ledger ''2024-03-01'' ''2024-03-31'') = (8, 14)"
proof -
  have h1: "''2024-03-01'' \<noteq> []" and h2: "''2024-03-31'' \<noteq> []" by simp_all
  note t = report_selection_and_totals[OF h1 h2, of ledger]
  have sel: "filter (\<lambda>tx. tx_type tx = OUT \<and> ''2024-03-01'' \<le> take 10 (tx_timestamp tx)
                         \<and> take 10 (tx_timestamp tx) \<le> ''2024-03-31'') ledger = [ledger ! 1]"
    by (simp add: ledger_def)
  from t[THEN conjunct1] sel have r: "rangeTx ledger ''2024-03-01'' ''2024-03-31'' = [ledger ! 1]"
    by (rule trans)
  from t[THEN conjunct2] have tot: "totals (rangeTx ledger ''2024-03-01'' ''2024-03-31'') = (8, 14)"
    unfolding r by (simp add: ledger_def)
  from h1 h2 r tot show ?thesis by (simp add: ledger_def)
qed

section \<open>The ledger grows at its head\<close>

lemma recordInbound_transactions:
  "transactions (recordInbound s options now uid) = transactions s \<or>
   (\<exists>tx. tx_type tx = IN \<and> transactions (recordInbound s options now uid) = tx # transactions s)"
  unfolding recordInbound_def Let_def
  by (auto split: option.splits)

lemma recordInbound_accepted_transactions:
  assumes "0 < in_quantity options" and "\<exists>i\<in>set (inventory s). item_id i = Some (in_itemId options)"
  shows "\<exists>tx. tx_type tx = IN \<and> transactions (recordInbound s options now uid) = tx # transactions s"
proof -
  from assms(2) obtain item where
    "find (\<lambda>i. item_id i = Some (in_itemId options)) (inventory s) = Some item"
    by (cases "find (\<lambda>i. item_id i = Some (in_itemId options)) (inventory s)")
       (auto simp: find_None_iff_all)
  with assms(1) show ?thesis
    by (simp add: recordInbound_def Let_def)
qed

lemma recordOutbound_updater_transactions:
  "transactions (recordOutbound_updater options ts client uid s) = transactions s \<or>
   (\<exists>tx. tx_type tx = OUT \<and>
      transactions (recordOutbound_updater options ts client uid s) = tx # transactions s)"
  unfolding recordOutbound_updater_def Let_def
  by auto

lemma recordOutbound_updater_accepted_transactions:
  assumes "\<exists>l\<in>set (out_items options). \<exists>i\<in>set (inventory s). item_id i = Some (cart_itemId l)"
  shows "\<exists>tx. tx_type tx = OUT \<and>
      transactions (recordOutbound_updater options ts client uid s) = tx # transactions s"
proof -
  from assms obtain l where l: "l \<in> set (out_items options)"
    and ex: "\<exists>i\<in>set (inventory s). item_id i = Some (cart_itemId l)" by blast
  from ex have "find (\<lambda>item. item_id item = Some (cart_itemId l)) (inventory s) \<noteq> None"
    by (simp add: find_None_iff_all)
  then have "(case find (\<lambda>item. item_id item = Some (cart_itemId l)) (inventory s) of
                     None \<Rightarrow> None
                   | Some base \<Rightarrow>
                       Some \<lparr>line_itemId = item_id base, line_name = item_name base,
                             line_quantity = cart_quantity l,
                             line_weightPerUnitLbs = item_weightPerUnitLbs base,
                             line_valuePerUnitUsd = item_valuePerUnitUsd base\<rparr>) \<noteq> None"
    by (auto split: option.splits)
  with l have "List.map_filter
             (\<lambda>i. case find (\<lambda>item. item_id item = Some (cart_itemId i)) (inventory s) of
                     None \<Rightarrow> None
                   | Some base \<Rightarrow>
                       Some \<lparr>line_itemId = item_id base, line_name = item_name base,
                             line_quantity = cart_quantity i,
                             line_weightPerUnitLbs = item_weightPerUnitLbs base,
                             line_valuePerUnitUsd = item_valuePerUnitUsd base\<rparr>)
             (out_items options) \<noteq> []"
    by (rule map_filter_nonempty)
  then show ?thesis
    by (simp add: recordOutbound_updater_def Let_def)
qed

lemma recordOutbound_transactions:
  "transactions (recordOutbound s options now nc uc ut) = transactions s \<or>
   (\<exists>tx. tx_type tx = OUT \<and> transactions (recordOutbound s options now nc uc ut) = tx # transactions s)"
proof (cases "out_items options = []")
  case True
  then show ?thesis by (simp add: recordOutbound_empty)
next
  case False
  then show ?thesis
    using recordOutbound_updater_transactions[of options "nullish (out_timestamp options) now"
        "fst (upsertClient_queued s (clientPartial (out_client options)) nc uc)" ut s]
    by (simp add: recordOutbound_nonempty)
qed

lemma recordOutbound_accepted_transactions:
  assumes "\<exists>l\<in>set (out_items options). \<exists>i\<in>set (inventory s). item_id i = Some (cart_itemId l)"
  shows "\<exists>tx. tx_type tx = OUT \<and> transactions (recordOutbound s options now nc uc ut) = tx # transactions s"
proof -
  from assms have "out_items options \<noteq> []" by auto
  then show ?thesis
    using recordOutbound_updater_accepted_transactions[OF assms,
        where ts = "nullish (out_timestamp options) now"
        and client = "fst (upsertClient_queued s (clientPartial (out_client options)) nc uc)"
        and uid = ut]
    by (simp add: recordOutbound_nonempty)
qed

lemma apply_operation_transactions:
  "transactions (apply_operation s op) = transactions s \<or>
   (\<exists>tx. transactions (apply_operation s op) = tx # transactions s)"
proof (cases op)
  case (AddOrUpdateItem p n u)
  then show ?thesis
    by (auto simp: addOrUpdateItem_settled Let_def split: option.splits)
next
  case (AdjustItemQuantity i d n)
  then show ?thesis by (simp add: adjustItemQuantity_def)
next
  case (RecordInbound options n u)
  then show ?thesis using recordInbound_transactions[of s options n u] by auto
next
  case (RecordOutbound options n nc uc ut)
  then show ?thesis using recordOutbound_transactions[of s options n nc uc ut] by auto
next
  case (UpsertClient p n u)
  then show ?thesis
    by (cases "upsertClient_queued s p n u")
       (simp add: upsertClient_def upsertClient_queued_transactions)
next
  case (UpdateSettings p)
  then show ?thesis by (simp add: updateSettings_def)
next
  case (UpsertBarcodeCache b e n)
  then show ?thesis by (simp add: upsertBarcodeCache_def)
next
  case (AddSource x)
  then show ?thesis by (simp add: addSource_def)
next
  case (AddDonor x)
  then show ?thesis by (simp add: addDonor_def)
qed

lemma run_transactions:
  "\<exists>new. transactions (run s ops) = new @ transactions s \<and> length new \<le> length ops"
proof (induction ops arbitrary: s)
  case Nil
  show ?case by (simp add: run_def)
next
  case (Cons op ops)
  from Cons.IH[of "apply_operation s op"] obtain new where
    n: "transactions (run (apply_operation s op) ops) = new @ transactions (apply_operation s op)"
       "length new \<le> length ops" by blast
  from apply_operation_transactions[of s op] show ?case
  proof
    assume "transactions (apply_operation s op) = transactions s"
    with n show ?thesis by (auto simp: run_def)
  next
    assume "\<exists>tx. transactions (apply_operation s op) = tx # transactions s"
    then obtain tx where "transactions (apply_operation s op) = tx # transactions s" ..
    with n have "transactions (run s (op # ops)) = (new @ [tx]) @ transactions s"
      "length (new @ [tx]) \<le> length (op # ops)" by (simp_all add: run_def)
    then show ?thesis by blast
  qed
qed

text \<open>
  Claim C9. A call of \<open>recordInbound\<close> with a positive quantity for an existing item puts one
  IN transaction in front of the ledger, and a call of \<open>recordOutbound\<close> with a cart line for
  an existing item puts one OUT transaction in front of it; every engine operation leaves
  the ledger as it was or puts one transaction in front of it; so after every sequence of
  operations the former ledger is still there, unchanged and in its order, behind the
  transactions added since.
\<close>

theorem ledger_newest_first:
  "(0 < in_quantity inbound \<and> (\<exists>i\<in>set (inventory s). item_id i = Some (in_itemId inbound))
      \<longrightarrow> (\<exists>tx. tx_type tx = IN \<and>
             transactions (recordInbound s inbound now uid) = tx # transactions s))
   \<and> ((\<exists>l\<in>set (out_items outbound). \<exists>i\<in>set (inventory s). item_id i = Some (cart_itemId l))
      \<longrightarrow> (\<exists>tx. tx_type tx = OUT \<and>
             transactions (recordOutbound s outbound now now_client uid_client uid) = tx # transactions s))
   \<and> (transactions (apply_operation s op) = transactions s \<or>
      (\<exists>tx. transactions (apply_operation s op) = tx # transactions s))
   \<and> (\<exists>new. transactions (run s ops) = new @ transactions s \<and> length new \<le> length ops)"
  using recordInbound_accepted_transactions[of inbound s now uid]
    recordOutbound_accepted_transactions[of outbound s now now_client uid_client uid]
    apply_operation_transactions[of s op] run_transactions[of s ops]
  by blast

text \<open>A receipt and a check-out of rice on \<open>pantry\<close>, whose ledger is empty.\<close>

theorem ledger_newest_first_witness:
  "(0 < in_quantity (receive ''a'' 5)
      \<and> (\<exists>i\<in>set (inventory pantry). item_id i = Some (in_itemId (receive ''a'' 5))))
   \<and> map tx_type (transactions (recordInbound pantry (receive ''a'' 5)
        ''2024-02-01T09:00:00.000Z'' ''x1'')) = [IN]
   \<and> (\<exists>l\<in>set (out_items (checkout [\<lparr>cart_itemId = ''a'', cart_quantity = 2\<rparr>])).
        \<exists>i\<in>set (inventory pantry). item_id i = Some (cart_itemId l))
   \<and> map tx_type (transactions (recordOutbound pantry
        (checkout [\<lparr>cart_itemId = ''a'', cart_quantity = 2\<rparr>])
        ''2024-03-01T10:00:00.000Z'' ''2024-03-01T10:00:00.050Z'' ''c1'' ''x2'')) = [OUT]"
proof -
  have h1: "0 < in_quantity (receive ''a'' 5)
      \<and> (\<exists>i\<in>set (inventory pantry). item_id i = Some (in_itemId (receive ''a'' 5)))"
    by (simp add: receive_def pantry_def rice_def)
  have h2: "\<exists>l\<in>set (out_items (checkout [\<lparr>cart_itemId = ''a'', cart_quantity = 2\<rparr>])).
        \<exists>i\<in>set (inventory pantry). item_id i = Some (cart_itemId l)"
    by (simp add: checkout_def pantry_def rice_def)
  have e: "transactions pantry = []" by (simp add: pantry_def defaultState_def)
  from ledger_newest_first[where s = pantry and inbound = "receive ''a'' 5"
      and now = "''2024-02-01T09:00:00.000Z''" and uid = "''x1''", THEN conjunct1, THEN mp, OF h1]
  have a: "map tx_type (transactions (recordInbound pantry (receive ''a'' 5)
        ''2024-02-01T09:00:00.000Z'' ''x1'')) = [IN]"
    by (auto simp: e)
  from ledger_newest_first[where s = pantry
      and outbound = "checkout [\<lparr>cart_itemId = ''a'', cart_quantity = 2\<rparr>]"
      and now = "''2024-03-01T10:00:00.000Z''" and now_client = "''2024-03-01T10:00:00.050Z''"
      and uid_client = "''c1''" and uid = "''x2''", THEN conjunct2, THEN conjunct1, THEN mp, OF h2]
  have b: "map tx_type (transactions (recordOutbound pantry
        (checkout [\<lparr>cart_itemId = ''a'', cart_quantity = 2\<rparr>])
        ''2024-03-01T10:00:00.000Z'' ''2024-03-01T10:00:00.050Z'' ''c1'' ''x2'')) = [OUT]"
    by (auto simp: e)
  from h1 h2 a b show ?thesis by blast
qed

section \<open>The barcode cache\<close>

text \<open>
  Claim C10. \<open>upsertBarcodeCache\<close> leaves inventory, clients, transactions, settings,
  sources and donors unchanged, leaves the cache entry of every other barcode unchanged,
  and sets the entry of the given barcode to the given fields with the time of the call as
  \<^verbatim>\<open>cachedAt\<close>, whatever was there before.
\<close>

theorem upsertBarcodeCache_frame:
  "(let s' = upsertBarcodeCache s barcode entry now
    in inventory s' = inventory s \<and> clients s' = clients s \<and> transactions s' = transactions s
     \<and> settings s' = settings s \<and> sources s' = sources s \<and> donors s' = donors s
     \<and> (\<forall>other. other \<noteq> barcode \<longrightarrow> barcodeCache s' other = barcodeCache s other)
     \<and> barcodeCache s' barcode =
         Some \<lparr>cache_name = ci_name entry, cache_category = ci_category entry,
               cache_weightPerUnitLbs = ci_weightPerUnitLbs entry,
               cache_allergens = ci_allergens entry, cachedAt = now\<rparr>)"
  by (simp add: upsertBarcodeCache_def Let_def)

text \<open>
  An entry cached for 456 and then one for 123: the first is still there with its own
  \<^verbatim>\<open>cachedAt\<close>, and the second has the time of the second call.
\<close>

theorem upsertBarcodeCache_frame_witness:
  "''456'' \<noteq> ''123''
   \<and> barcodeCache (upsertBarcodeCache
        (upsertBarcodeCache defaultState ''456'' riceEntry ''2024-01-01T00:00:00.000Z'')
        ''123'' riceEntry ''2024-01-02T00:00:00.000Z'') ''456''
     = Some \<lparr>cache_name = Some ''Rice'', cache_category = Some ''Grains'',
             cache_weightPerUnitLbs = Some 2, cache_allergens = None,
             cachedAt = ''2024-01-01T00:00:00.000Z''\<rparr>
   \<and> barcodeCache (upsertBarcodeCache
        (upsertBarcodeCache defaultState ''456'' riceEntry ''2024-01-01T00:00:00.000Z'')
        ''123'' riceEntry ''2024-01-02T00:00:00.000Z'') ''123''
     = Some \<lparr>cache_name = Some ''Rice'', cache_category = Some ''Grains'',
             cache_weightPerUnitLbs = Some 2, cache_allergens = None,
             cachedAt = ''2024-01-02T00:00:00.000Z''\<rparr>"
proof -
  have ne: "''456'' \<noteq> ''123''" by simp
  have first: "barcodeCache (upsertBarcodeCache defaultState ''456'' riceEntry ''2024-01-01T00:00:00.000Z'') ''456''
     = Some \<lparr>cache_name = Some ''Rice'', cache_category = Some ''Grains'',
             cache_weightPerUnitLbs = Some 2, cache_allergens = None,
             cachedAt = ''2024-01-01T00:00:00.000Z''\<rparr>"
    by (simp add: upsertBarcodeCache_def riceEntry_def)
  from upsertBarcodeCache_frame[of
      "upsertBarcodeCache defaultState ''456'' riceEntry ''2024-01-01T00:00:00.000Z''"
      "''123''" riceEntry "''2024-01-02T00:00:00.000Z''"]
  have "(''456'' \<noteq> ''123'' \<longrightarrow> barcodeCache (upsertBarcodeCache
        (upsertBarcodeCache defaultState ''456'' riceEntry ''2024-01-01T00:00:00.000Z'')
        ''123'' riceEntry ''2024-01-02T00:00:00.000Z'') ''456''
     = barcodeCache (upsertBarcodeCache defaultState ''456'' riceEntry ''2024-01-01T00:00:00.000Z'') ''456'')
    \<and> barcodeCache (upsertBarcodeCache
        (upsertBarcodeCache defaultState ''456'' riceEntry ''2024-01-01T00:00:00.000Z'')
        ''123'' riceEntry ''2024-01-02T00:00:00.000Z'') ''123''
     = Some \<lparr>cache_name = ci_name riceEntry, cache_category = ci_category riceEntry,
               cache_weightPerUnitLbs = ci_weightPerUnitLbs riceEntry,
               cache_allergens = ci_allergens riceEntry, cachedAt = ''2024-01-02T00:00:00.000Z''\<rparr>"
    unfolding Let_def by (elim conjE) (rule conjI, erule spec, assumption)
  with ne first show ?thesis by (simp add: riceEntry_def)
qed

end
